theory Spec2Isabelle
  imports Complex_Main
begin

section \<open>The calculator of calculator001.py\<close>

text \<open>
  The program is one Python file. \<^verbatim>\<open>safe_eval\<close> hands its argument to
  \<^verbatim>\<open>ast.parse(expr, mode='eval')\<close>, turns a \<^verbatim>\<open>SyntaxError\<close> of the parser into a
  \<^verbatim>\<open>ValueError\<close>, and walks the tree with the nested function \<^verbatim>\<open>_eval\<close>, which
  applies Python's own operators \<^verbatim>\<open>+ - * / % **\<close> and unary \<^verbatim>\<open>+ -\<close> to the values of
  the operands and sends every other node to \<^verbatim>\<open>_is_number\<close>. The two prompt loops
  (\<^verbatim>\<open>repl\<close> and the loop under \<^verbatim>\<open>__main__\<close>) refuse a line that holds a letter before
  they call \<^verbatim>\<open>safe_eval\<close>; the command-line path calls it directly.

  The development has four layers: Python's numbers and operators (the host's
  semantics, which the program uses unchanged), the tree and its evaluation
  (\<^verbatim>\<open>_is_number\<close>, \<^verbatim>\<open>_eval\<close>, \<^verbatim>\<open>safe_eval\<close>), a reader for the part of Python's expression
  grammar the examples need, and the handling of one line by the prompt loops.
\<close>

subsection \<open>Python floats\<close>

text \<open>
  A Python float is an IEEE 754 binary64 number. It is represented by its value: a
  finite float by the rational it denotes, and the two infinities and the NaN by
  constructors of their own. The sign of a zero is not kept (it changes what is
  printed for a zero, and no exception or type).
\<close>

datatype pyfloat = Fin rat | PInf | NInf | NaN

fun bit_length :: "nat \<Rightarrow> nat" where
  "bit_length n = (if n = 0 then 0 else Suc (bit_length (n div 2)))"

declare bit_length.simps [simp del]

definition pow2 :: "int \<Rightarrow> rat" where
  "pow2 k = (if 0 \<le> k then 2 ^ nat k else 1 / 2 ^ nat (- k))"

text \<open>The binary exponent of a positive rational: the \<open>e\<close> with \<open>2\<^sup>e \<le> x < 2\<^sup>e\<^sup>+\<^sup>1\<close>.\<close>

definition ilog2 :: "rat \<Rightarrow> int" where
  "ilog2 x =
     (if 1 \<le> x then int (bit_length (nat \<lfloor>x\<rfloor>)) - 1
      else (let k = int (bit_length (nat \<lfloor>1 / x\<rfloor>)) - 1
            in if 1 / x = pow2 k then - k else - k - 1))"

definition round_half_even :: "rat \<Rightarrow> int" where
  "round_half_even y =
     (let f = \<lfloor>y\<rfloor>; d = y - of_int f
      in if d < 1 / 2 then f else if 1 / 2 < d then f + 1
         else if even f then f else f + 1)"

text \<open>
  Rounding to the nearest binary64 number, ties to even: 53 significant bits, the
  exponent no smaller than that of the smallest normal number (below it the spacing of
  the subnormal numbers, \<open>2\<^sup>-\<^sup>1\<^sup>0\<^sup>7\<^sup>4\<close>, stays), and an infinity when the rounded magnitude
  reaches \<open>2\<^sup>1\<^sup>0\<^sup>2\<^sup>4\<close>.
\<close>

definition round64 :: "rat \<Rightarrow> pyfloat" where
  "round64 x =
     (if x = 0 then Fin 0
      else (let e = max (ilog2 \<bar>x\<bar>) (- 1022);
                q = pow2 (e - 52);
                r = of_int (round_half_even (x / q)) * q
            in if pow2 1024 \<le> \<bar>r\<bar> then (if 0 < x then PInf else NInf) else Fin r))"

fun is_inf :: "pyfloat \<Rightarrow> bool" where
  "is_inf PInf = True"
| "is_inf NInf = True"
| "is_inf _ = False"

fun fneg :: "pyfloat \<Rightarrow> pyfloat" where
  "fneg (Fin a) = Fin (- a)"
| "fneg PInf = NInf"
| "fneg NInf = PInf"
| "fneg NaN = NaN"

fun fabs :: "pyfloat \<Rightarrow> pyfloat" where
  "fabs (Fin a) = Fin \<bar>a\<bar>"
| "fabs PInf = PInf"
| "fabs NInf = PInf"
| "fabs NaN = NaN"

text \<open>The sign of a float as \<open>-1\<close>, \<open>0\<close> or \<open>1\<close> (\<open>0\<close> for the NaN).\<close>

fun fsign :: "pyfloat \<Rightarrow> int" where
  "fsign (Fin a) = (if a < 0 then - 1 else if a = 0 then 0 else 1)"
| "fsign PInf = 1"
| "fsign NInf = - 1"
| "fsign NaN = 0"

text \<open>C's \<^verbatim>\<open>x < 0.0\<close> and \<^verbatim>\<open>x > 0.0\<close>: both false for the NaN.\<close>

definition flt0 :: "pyfloat \<Rightarrow> bool" where
  "flt0 x = (fsign x < 0)"

definition fgt0 :: "pyfloat \<Rightarrow> bool" where
  "fgt0 x = (0 < fsign x)"

fun fadd :: "pyfloat \<Rightarrow> pyfloat \<Rightarrow> pyfloat" where
  "fadd (Fin a) (Fin b) = round64 (a + b)"
| "fadd NaN _ = NaN"
| "fadd _ NaN = NaN"
| "fadd PInf NInf = NaN"
| "fadd NInf PInf = NaN"
| "fadd PInf _ = PInf"
| "fadd _ PInf = PInf"
| "fadd NInf _ = NInf"
| "fadd _ NInf = NInf"

definition fsub :: "pyfloat \<Rightarrow> pyfloat \<Rightarrow> pyfloat" where
  "fsub x y = fadd x (fneg y)"

fun fmul :: "pyfloat \<Rightarrow> pyfloat \<Rightarrow> pyfloat" where
  "fmul (Fin a) (Fin b) = round64 (a * b)"
| "fmul NaN _ = NaN"
| "fmul _ NaN = NaN"
| "fmul x y =
     (if fsign x * fsign y = 0 then NaN else if 0 < fsign x * fsign y then PInf else NInf)"

text \<open>Division and remainder are only called with a divisor that is not zero.\<close>

fun fdiv :: "pyfloat \<Rightarrow> pyfloat \<Rightarrow> pyfloat" where
  "fdiv (Fin a) (Fin b) = round64 (a / b)"
| "fdiv NaN _ = NaN"
| "fdiv _ NaN = NaN"
| "fdiv (Fin a) _ = Fin 0"
| "fdiv x (Fin b) = (if 0 < fsign x * fsign (Fin b) then PInf else NInf)"
| "fdiv _ _ = NaN"

definition trunc :: "rat \<Rightarrow> int" where
  "trunc x = (if 0 \<le> x then \<lfloor>x\<rfloor> else \<lceil>x\<rceil>)"

text \<open>C's \<^verbatim>\<open>fmod\<close>: exact, with the sign of the dividend.\<close>

fun c_fmod :: "pyfloat \<Rightarrow> pyfloat \<Rightarrow> pyfloat" where
  "c_fmod (Fin a) (Fin b) = Fin (a - of_int (trunc (a / b)) * b)"
| "c_fmod NaN _ = NaN"
| "c_fmod _ NaN = NaN"
| "c_fmod (Fin a) _ = Fin a"
| "c_fmod _ _ = NaN"

text \<open>
  CPython's \<^verbatim>\<open>float_rem\<close> after its test for a zero divisor:
  \<^verbatim>\<open>mod = fmod(vx, wx); if (mod) { if ((wx < 0) != (mod < 0)) mod += wx; }
  else mod = copysign(0.0, wx);\<close>
\<close>

definition float_rem :: "pyfloat \<Rightarrow> pyfloat \<Rightarrow> pyfloat" where
  "float_rem vx wx =
     (let m = c_fmod vx wx
      in if m \<noteq> Fin 0 then (if flt0 wx \<noteq> flt0 m then fadd m wx else m) else Fin 0)"

subsection \<open>Python values and exceptions\<close>

text \<open>
  The values the tree walk can produce: a \<^verbatim>\<open>bool\<close> (a subclass of \<^verbatim>\<open>int\<close> in
  Python), an unbounded \<^verbatim>\<open>int\<close>, a \<^verbatim>\<open>float\<close>, and a \<^verbatim>\<open>complex\<close> (a pair of floats),
  which Python's \<^verbatim>\<open>**\<close> returns for a negative base and a fractional exponent.
\<close>

datatype pyval = BoolV bool | IntV int | FloatV pyfloat | ComplexV pyfloat pyfloat

text \<open>
  The exceptions: \<^verbatim>\<open>SyntaxError\<close> and \<^verbatim>\<open>ValueError\<close> carry their text, the
  arithmetic errors do not (the program prints the text of none of them but through
  \<^verbatim>\<open>print('Error:', e)\<close>). \<^verbatim>\<open>RecursionError\<close> is raised by a call that would pass the
  interpreter's recursion limit, \<^verbatim>\<open>MemoryError\<close> by the parser on a text it has no room
  for. The memory an integer takes is not modelled: an \<^verbatim>\<open>int\<close> is any integer.
\<close>

datatype exn =
    SyntaxError string | ValueError string | ZeroDivisionError | OverflowError | TypeError
  | RecursionError | MemoryError

fun as_int :: "pyval \<Rightarrow> int option" where
  "as_int (BoolV b) = Some (if b then 1 else 0)"
| "as_int (IntV n) = Some n"
| "as_int _ = None"

fun is_complex :: "pyval \<Rightarrow> bool" where
  "is_complex (ComplexV _ _) = True"
| "is_complex _ = False"

fun is_float :: "pyval \<Rightarrow> bool" where
  "is_float (FloatV _) = True"
| "is_float _ = False"

text \<open>
  \<^verbatim>\<open>PyLong_AsDouble\<close>: the nearest float, and \<^verbatim>\<open>OverflowError\<close> ("int too large to
  convert to float") when there is none.
\<close>

definition long_as_double :: "int \<Rightarrow> exn + pyfloat" where
  "long_as_double n =
     (case round64 (of_int n) of Fin q \<Rightarrow> Inr (Fin q) | _ \<Rightarrow> Inl OverflowError)"

text \<open>\<^verbatim>\<open>CONVERT_TO_DOUBLE\<close> of floatobject.c, for an operand that is not a complex.\<close>

fun to_double :: "pyval \<Rightarrow> exn + pyfloat" where
  "to_double (FloatV f) = Inr f"
| "to_double (IntV n) = long_as_double n"
| "to_double (BoolV b) = long_as_double (if b then 1 else 0)"
| "to_double (ComplexV _ _) = Inl TypeError"

text \<open>\<^verbatim>\<open>TO_COMPLEX\<close> of complexobject.c.\<close>

fun to_complex :: "pyval \<Rightarrow> exn + pyfloat \<times> pyfloat" where
  "to_complex (ComplexV re im) = Inr (re, im)"
| "to_complex v = (case to_double v of Inl e \<Rightarrow> Inl e | Inr f \<Rightarrow> Inr (f, Fin 0))"

subsection \<open>What the platform decides\<close>

text \<open>
  Three results are computed by the C library and by CPython's complex arithmetic in
  ways that differ between platforms in the last bit: \<^verbatim>\<open>pow\<close> where the power is not
  itself a float, the product and the quotient of two complex numbers, and the complex
  power. Each is a function of its arguments about which nothing is assumed. The same
  holds for the text of the parser's \<^verbatim>\<open>SyntaxError\<close>, which changes between Python
  versions.
\<close>

definition libm_pow_inexact :: "rat \<Rightarrow> rat \<Rightarrow> pyfloat" where
  "libm_pow_inexact = undefined"

definition c_prod :: "pyfloat \<times> pyfloat \<Rightarrow> pyfloat \<times> pyfloat \<Rightarrow> pyfloat \<times> pyfloat" where
  "c_prod = undefined"

definition c_quot :: "pyfloat \<times> pyfloat \<Rightarrow> pyfloat \<times> pyfloat \<Rightarrow> pyfloat \<times> pyfloat" where
  "c_quot = undefined"

datatype pow_outcome = PowDomainError | PowRangeError | PowResult pyfloat pyfloat

definition c_pow :: "pyfloat \<times> pyfloat \<Rightarrow> pyfloat \<times> pyfloat \<Rightarrow> pow_outcome" where
  "c_pow = undefined"

text \<open>
  \<^verbatim>\<open>complex_pow\<close> of complexobject.c raises \<^verbatim>\<open>ZeroDivisionError\<close> for a domain error
  and \<^verbatim>\<open>OverflowError\<close> for a range error of the computation, and nothing else.
\<close>

definition complex_pow :: "pyfloat \<times> pyfloat \<Rightarrow> pyfloat \<times> pyfloat \<Rightarrow> exn + pyfloat \<times> pyfloat" where
  "complex_pow a b =
     (case c_pow a b of
        PowDomainError \<Rightarrow> Inl ZeroDivisionError
      | PowRangeError \<Rightarrow> Inl OverflowError
      | PowResult re im \<Rightarrow> Inr (re, im))"

definition syntax_error_text :: "string \<Rightarrow> string" where
  "syntax_error_text = undefined"

text \<open>
  C's \<^verbatim>\<open>pow\<close> for a finite positive base other than 1 and a finite exponent other than
  0, the only arguments \<^verbatim>\<open>float_pow\<close> passes to it. When the exponent is a whole
  number and the power is a normal float, that float is the result.
\<close>

definition is_whole :: "rat \<Rightarrow> bool" where
  "is_whole y = (of_int \<lfloor>y\<rfloor> = y)"

definition rat_power :: "rat \<Rightarrow> int \<Rightarrow> rat" where
  "rat_power x k = (if 0 \<le> k then x ^ nat k else 1 / x ^ nat (- k))"

definition libm_pow :: "rat \<Rightarrow> rat \<Rightarrow> pyfloat" where
  "libm_pow x y =
     (if is_whole y \<and> pow2 (- 1022) \<le> rat_power x \<lfloor>y\<rfloor>
         \<and> round64 (rat_power x \<lfloor>y\<rfloor>) = Fin (rat_power x \<lfloor>y\<rfloor>)
      then Fin (rat_power x \<lfloor>y\<rfloor>)
      else libm_pow_inexact x y)"

text \<open>\<^verbatim>\<open>DOUBLE_IS_ODD_INTEGER(x)\<close> is \<^verbatim>\<open>fmod(fabs(x), 2.0) == 1.0\<close>.\<close>

definition is_odd_integer :: "pyfloat \<Rightarrow> bool" where
  "is_odd_integer x = (c_fmod (fabs x) (Fin 2) = Fin 1)"

text \<open>\<^verbatim>\<open>iw != floor(iw)\<close> for a finite \<open>iw\<close>.\<close>

fun is_fractional :: "pyfloat \<Rightarrow> bool" where
  "is_fractional (Fin y) = (\<not> is_whole y)"
| "is_fractional _ = False"

fun fin_val :: "pyfloat \<Rightarrow> rat" where
  "fin_val (Fin a) = a"
| "fin_val _ = 0"

text \<open>
  CPython's \<^verbatim>\<open>float_pow\<close>, case by case in the order of floatobject.c: a zero
  exponent, a NaN, an infinite exponent, an infinite base, a zero base
  (\<^verbatim>\<open>ZeroDivisionError\<close> for a negative exponent), a negative base with a fractional
  exponent (the complex power), a base of magnitude 1, and the call of \<^verbatim>\<open>pow\<close>, whose
  infinite result is an \<^verbatim>\<open>OverflowError\<close>.
\<close>

definition float_pow :: "pyfloat \<Rightarrow> pyfloat \<Rightarrow> exn + pyval" where
  "float_pow iv iw =
     (if iw = Fin 0 then Inr (FloatV (Fin 1))
      else if iv = NaN then Inr (FloatV iv)
      else if iw = NaN then Inr (FloatV (if iv = Fin 1 then Fin 1 else iw))
      else if is_inf iw then
        (if fabs iv = Fin 1 then Inr (FloatV (Fin 1))
         else if fgt0 iw = (fabs iv = PInf \<or> 1 < fin_val (fabs iv)) then Inr (FloatV PInf)
         else Inr (FloatV (Fin 0)))
      else if is_inf iv then
        (if fgt0 iw then Inr (FloatV (if is_odd_integer iw then iv else fabs iv))
         else Inr (FloatV (Fin 0)))
      else if iv = Fin 0 then
        (if flt0 iw then Inl ZeroDivisionError else Inr (FloatV (Fin 0)))
      else if flt0 iv \<and> is_fractional iw then
        (case complex_pow (iv, Fin 0) (iw, Fin 0) of
           Inl e \<Rightarrow> Inl e
         | Inr (re, im) \<Rightarrow> Inr (ComplexV re im))
      else (let negate_result = (flt0 iv \<and> is_odd_integer iw)
            in if fabs iv = Fin 1 then Inr (FloatV (if negate_result then Fin (- 1) else Fin 1))
               else (let ix = libm_pow (fin_val (fabs iv)) (fin_val iw)
                     in if is_inf ix then Inl OverflowError
                        else Inr (FloatV (if negate_result then fneg ix else ix)))))"

subsection \<open>Python's operators on numbers\<close>

text \<open>
  A binary operator on two numbers works on integers when both operands are \<^verbatim>\<open>int\<close>
  or \<^verbatim>\<open>bool\<close>, on complex numbers when one of them is a \<^verbatim>\<open>complex\<close>, and on floats
  otherwise; the operands are converted first, the left one before the right one, and
  a conversion that fails raises before the operation looks at the values.
\<close>

definition arith ::
  "(int \<Rightarrow> int \<Rightarrow> exn + pyval) \<Rightarrow> (pyfloat \<Rightarrow> pyfloat \<Rightarrow> exn + pyval) \<Rightarrow>
   (pyfloat \<times> pyfloat \<Rightarrow> pyfloat \<times> pyfloat \<Rightarrow> exn + pyval) \<Rightarrow> pyval \<Rightarrow> pyval \<Rightarrow> exn + pyval" where
  "arith on_int on_float on_complex l r =
     (case (as_int l, as_int r) of
        (Some a, Some b) \<Rightarrow> on_int a b
      | _ \<Rightarrow>
        if is_complex l \<or> is_complex r then
          (case to_complex l of Inl e \<Rightarrow> Inl e
           | Inr a \<Rightarrow> (case to_complex r of Inl e \<Rightarrow> Inl e | Inr b \<Rightarrow> on_complex a b))
        else
          (case to_double l of Inl e \<Rightarrow> Inl e
           | Inr a \<Rightarrow> (case to_double r of Inl e \<Rightarrow> Inl e | Inr b \<Rightarrow> on_float a b)))"

definition mk_complex :: "pyfloat \<times> pyfloat \<Rightarrow> pyval" where
  "mk_complex c = ComplexV (fst c) (snd c)"

definition py_add :: "pyval \<Rightarrow> pyval \<Rightarrow> exn + pyval" where
  "py_add =
     arith (\<lambda>a b. Inr (IntV (a + b)))
           (\<lambda>a b. Inr (FloatV (fadd a b)))
           (\<lambda>a b. Inr (ComplexV (fadd (fst a) (fst b)) (fadd (snd a) (snd b))))"

definition py_sub :: "pyval \<Rightarrow> pyval \<Rightarrow> exn + pyval" where
  "py_sub =
     arith (\<lambda>a b. Inr (IntV (a - b)))
           (\<lambda>a b. Inr (FloatV (fsub a b)))
           (\<lambda>a b. Inr (ComplexV (fsub (fst a) (fst b)) (fsub (snd a) (snd b))))"

definition py_mul :: "pyval \<Rightarrow> pyval \<Rightarrow> exn + pyval" where
  "py_mul =
     arith (\<lambda>a b. Inr (IntV (a * b)))
           (\<lambda>a b. Inr (FloatV (fmul a b)))
           (\<lambda>a b. Inr (mk_complex (c_prod a b)))"

text \<open>
  \<^verbatim>\<open>/\<close>: \<^verbatim>\<open>long_true_divide\<close> gives the float nearest to the quotient of two integers
  (\<^verbatim>\<open>OverflowError\<close> when there is none); \<^verbatim>\<open>float_div\<close> and \<^verbatim>\<open>complex_div\<close> test the
  converted divisor for zero.
\<close>

definition long_true_divide :: "int \<Rightarrow> int \<Rightarrow> exn + pyval" where
  "long_true_divide a b =
     (if b = 0 then Inl ZeroDivisionError
      else (case round64 (of_int a / of_int b) of
              Fin q \<Rightarrow> Inr (FloatV (Fin q))
            | _ \<Rightarrow> Inl OverflowError))"

definition py_truediv :: "pyval \<Rightarrow> pyval \<Rightarrow> exn + pyval" where
  "py_truediv =
     arith long_true_divide
           (\<lambda>a b. if b = Fin 0 then Inl ZeroDivisionError else Inr (FloatV (fdiv a b)))
           (\<lambda>a b. if b = (Fin 0, Fin 0) then Inl ZeroDivisionError else Inr (mk_complex (c_quot a b)))"

text \<open>
  \<^verbatim>\<open>%\<close>: a \<^verbatim>\<open>complex\<close> operand has no remainder (\<^verbatim>\<open>TypeError\<close>); on integers the
  remainder of the floor division, which is what \<open>mod\<close> on \<open>int\<close> is.
\<close>

definition py_mod :: "pyval \<Rightarrow> pyval \<Rightarrow> exn + pyval" where
  "py_mod l r =
     (if is_complex l \<or> is_complex r then Inl TypeError
      else arith (\<lambda>a b. if b = 0 then Inl ZeroDivisionError else Inr (IntV (a mod b)))
                 (\<lambda>a b. if b = Fin 0 then Inl ZeroDivisionError else Inr (FloatV (float_rem a b)))
                 (\<lambda>a b. Inl TypeError) l r)"

text \<open>
  \<^verbatim>\<open>**\<close>: \<^verbatim>\<open>long_pow\<close> computes the integer power for an exponent that is not
  negative and hands a negative exponent to \<^verbatim>\<open>float_pow\<close>, which converts both
  operands.
\<close>

definition long_pow :: "int \<Rightarrow> int \<Rightarrow> exn + pyval" where
  "long_pow a b =
     (if 0 \<le> b then Inr (IntV (a ^ nat b))
      else (case long_as_double a of Inl e \<Rightarrow> Inl e
            | Inr x \<Rightarrow> (case long_as_double b of Inl e \<Rightarrow> Inl e | Inr y \<Rightarrow> float_pow x y)))"

definition py_pow :: "pyval \<Rightarrow> pyval \<Rightarrow> exn + pyval" where
  "py_pow =
     arith long_pow float_pow
       (\<lambda>a b. case complex_pow a b of Inl e \<Rightarrow> Inl e | Inr c \<Rightarrow> Inr (mk_complex c))"

text \<open>Unary \<^verbatim>\<open>+\<close> and \<^verbatim>\<open>-\<close>; on a \<^verbatim>\<open>bool\<close> both give an \<^verbatim>\<open>int\<close>.\<close>

fun py_pos :: "pyval \<Rightarrow> pyval" where
  "py_pos (BoolV b) = IntV (if b then 1 else 0)"
| "py_pos v = v"

fun py_neg :: "pyval \<Rightarrow> pyval" where
  "py_neg (BoolV b) = IntV (- (if b then 1 else 0))"
| "py_neg (IntV n) = IntV (- n)"
| "py_neg (FloatV f) = FloatV (fneg f)"
| "py_neg (ComplexV re im) = ComplexV (fneg re) (fneg im)"

subsection \<open>The tree of \<^verbatim>\<open>ast.parse\<close>\<close>

text \<open>
  The node classes of Python's \<^verbatim>\<open>ast\<close> module that an expression can hold. The
  program tells apart \<^verbatim>\<open>Expression\<close>, \<^verbatim>\<open>BinOp\<close>, \<^verbatim>\<open>UnaryOp\<close> and \<^verbatim>\<open>Constant\<close>; the
  classes the specification names are constructors of their own, and
  \<open>OtherExpr\<close> stands for every remaining class (a conditional expression, a lambda,
  a comprehension, a formatted string, ...) with the name of the class and the nodes
  below it.
\<close>

datatype pyconst =
    CInt int | CFloat pyfloat | CImag pyfloat | CBool bool
  | CStr string | CBytes string | CNone | CEllipsis

datatype operator =
    Add | Sub | Mult | MatMult | Div | Mod | Pow
  | LShift | RShift | BitOr | BitXor | BitAnd | FloorDiv

datatype unaryop = Invert | NotOp | UAdd | USub

datatype boolop = AndOp | OrOp

datatype cmpop = Eq | NotEq | Lt | LtE | Gt | GtE | Is | IsNot | In | NotIn

datatype node =
    Expression node
  | BinOp node operator node
  | UnaryOp unaryop node
  | Constant pyconst
  | Name string
  | Call node "node list"
  | Attribute node string
  | Subscript node node
  | Compare node "cmpop list" "node list"
  | BoolOp boolop "node list"
  | NamedExpr node node
  | ListNode "node list"
  | TupleNode "node list"
  | SetNode "node list"
  | DictNode "node list" "node list"
  | OtherExpr string "node list"

subsection \<open>\<^verbatim>\<open>_is_number\<close>\<close>

text \<open>
  \<^verbatim>\<open>
  def _is_number(node):
      if isinstance(node, ast.Constant):
          if isinstance(node.value, (int, float)):
              return node.value
          raise ValueError("Only numbers are allowed")
      if isinstance(node, ast.Num):
          return node.n
      raise ValueError("Expected a numeric literal")
  \<close>
  \<^verbatim>\<open>True\<close> and \<^verbatim>\<open>False\<close> are instances of \<^verbatim>\<open>int\<close>, so the inner test lets a
  \<^verbatim>\<open>bool\<close> constant through and returns the \<^verbatim>\<open>bool\<close> itself. The Pythons modelled are
  those on which \<^verbatim>\<open>ast.parse\<close> builds \<^verbatim>\<open>Constant\<close> nodes and \<^verbatim>\<open>ast.Num\<close> still exists
  (3.8 to 3.13): there a node is an instance of \<^verbatim>\<open>ast.Num\<close> only if it is a
  \<^verbatim>\<open>Constant\<close>, so the second test is false whenever it is reached.
\<close>

fun is_number :: "node \<Rightarrow> exn + pyval" where
  "is_number (Constant (CInt n)) = Inr (IntV n)"
| "is_number (Constant (CBool b)) = Inr (BoolV b)"
| "is_number (Constant (CFloat f)) = Inr (FloatV f)"
| "is_number (Constant _) = Inl (ValueError ''Only numbers are allowed'')"
| "is_number _ = Inl (ValueError ''Expected a numeric literal'')"

subsection \<open>\<^verbatim>\<open>_eval\<close> and \<^verbatim>\<open>safe_eval\<close>\<close>

text \<open>
  \<open>inner_eval\<close> is the nested function \<^verbatim>\<open>_eval\<close> of \<^verbatim>\<open>safe_eval\<close> (an Isabelle name
  cannot start with an underscore). A \<^verbatim>\<open>BinOp\<close> evaluates its left operand, then its
  right operand, and only then looks at its operator; a \<^verbatim>\<open>UnaryOp\<close> evaluates its
  operand first. An exception of an operand ends the walk.
\<close>

fun inner_eval :: "node \<Rightarrow> exn + pyval" where
  "inner_eval (Expression body) = inner_eval body"
| "inner_eval (BinOp l op r) =
     (case inner_eval l of
        Inl e \<Rightarrow> Inl e
      | Inr left \<Rightarrow>
          (case inner_eval r of
             Inl e \<Rightarrow> Inl e
           | Inr right \<Rightarrow>
               if op = Add then py_add left right
               else if op = Sub then py_sub left right
               else if op = Mult then py_mul left right
               else if op = Div then py_truediv left right
               else if op = Mod then py_mod left right
               else if op = Pow then py_pow left right
               else Inl (ValueError ''Unsupported binary operator'')))"
| "inner_eval (UnaryOp op operand) =
     (case inner_eval operand of
        Inl e \<Rightarrow> Inl e
      | Inr val \<Rightarrow>
          if op = UAdd then Inr (py_pos val)
          else if op = USub then Inr (py_neg val)
          else Inl (ValueError ''Unsupported unary operator''))"
| "inner_eval n = is_number n"

text \<open>
  \<^verbatim>\<open>
  try:
      tree = ast.parse(expr, mode='eval')
  except SyntaxError as e:
      raise ValueError(f"Syntax error: {e}")
  ...
  return _eval(tree)
  \<close>
  \<open>safe_eval_on\<close> is \<^verbatim>\<open>safe_eval\<close> from the outcome of \<^verbatim>\<open>ast.parse\<close> on: \<open>Inl e\<close> is
  a \<^verbatim>\<open>SyntaxError\<close> whose text is \<open>e\<close>, \<open>Inr tree\<close> the tree.
\<close>

definition safe_eval_on :: "string + node \<Rightarrow> exn + pyval" where
  "safe_eval_on parsed =
     (case parsed of
        Inl e \<Rightarrow> Inl (ValueError (''Syntax error: '' @ e))
      | Inr tree \<Rightarrow> inner_eval tree)"

subsection \<open>The recursion limit and the other failures of the parser\<close>

text \<open>
  \<open>inner_eval\<close> and \<open>safe_eval_on\<close> are the program where the interpreter's limits
  are out of reach. Every call of \<^verbatim>\<open>_eval\<close> and the call of \<^verbatim>\<open>_is_number\<close> take a frame
  of the interpreter's stack, and a call for which no frame is left raises
  \<^verbatim>\<open>RecursionError\<close>, which nothing in \<^verbatim>\<open>safe_eval\<close> catches. \<open>inner_eval_within d\<close> is
  \<^verbatim>\<open>_eval\<close> called when \<open>d\<close> more frames are left. The operators and the tests against
  \<^verbatim>\<open>ast.Expression\<close>, \<^verbatim>\<open>ast.BinOp\<close>, \<^verbatim>\<open>ast.UnaryOp\<close> and \<^verbatim>\<open>ast.Constant\<close> are no Python
  functions and take none. The test against \<^verbatim>\<open>ast.Num\<close>, which \<^verbatim>\<open>_is_number\<close> reaches for a
  node that is no \<^verbatim>\<open>Constant\<close>, runs Python code of the module \<^verbatim>\<open>ast\<close> (the
  \<^verbatim>\<open>__instancecheck__\<close> of the class, and on 3.12 and 3.13 the deprecation warning);
  \<open>ast_num_frames\<close> is the number of frames this takes, which depends on the version
  and is left open. Warnings are taken not to be turned into exceptions.
\<close>

definition ast_num_frames :: nat where
  "ast_num_frames = undefined"

fun is_constant :: "node \<Rightarrow> bool" where
  "is_constant (Constant c) = True"
| "is_constant _ = False"

definition is_number_within :: "nat \<Rightarrow> node \<Rightarrow> exn + pyval" where
  "is_number_within d n =
     (if d = 0 then Inl RecursionError
      else if is_constant n then is_number n
      else if d \<le> ast_num_frames then Inl RecursionError
      else is_number n)"

fun inner_eval_within :: "nat \<Rightarrow> node \<Rightarrow> exn + pyval" where
  "inner_eval_within 0 n = Inl RecursionError"
| "inner_eval_within (Suc d) (Expression body) = inner_eval_within d body"
| "inner_eval_within (Suc d) (BinOp l op r) =
     (case inner_eval_within d l of
        Inl e \<Rightarrow> Inl e
      | Inr left \<Rightarrow>
          (case inner_eval_within d r of
             Inl e \<Rightarrow> Inl e
           | Inr right \<Rightarrow>
               if op = Add then py_add left right
               else if op = Sub then py_sub left right
               else if op = Mult then py_mul left right
               else if op = Div then py_truediv left right
               else if op = Mod then py_mod left right
               else if op = Pow then py_pow left right
               else Inl (ValueError ''Unsupported binary operator'')))"
| "inner_eval_within (Suc d) (UnaryOp op operand) =
     (case inner_eval_within d operand of
        Inl e \<Rightarrow> Inl e
      | Inr val \<Rightarrow>
          if op = UAdd then Inr (py_pos val)
          else if op = USub then Inr (py_neg val)
          else Inl (ValueError ''Unsupported unary operator''))"
| "inner_eval_within (Suc d) n = is_number_within d n"

text \<open>
  The outcomes of \<^verbatim>\<open>ast.parse(expr, mode='eval')\<close>: the tree, a \<^verbatim>\<open>SyntaxError\<close> with its
  text, and the exceptions \<^verbatim>\<open>safe_eval\<close> does not catch (a text nested too deep for the
  parser's own recursion, a text too large, and on the Pythons before 3.12 the
  \<^verbatim>\<open>ValueError\<close> for a text that holds a null byte).
\<close>

datatype parse_outcome =
    Parsed node | Syntax_error string | Parser_recursion | Parser_memory | Parser_null_byte

definition safe_eval_within :: "nat \<Rightarrow> parse_outcome \<Rightarrow> exn + pyval" where
  "safe_eval_within d parsed =
     (case parsed of
        Parsed tree \<Rightarrow> inner_eval_within d tree
      | Syntax_error e \<Rightarrow> Inl (ValueError (''Syntax error: '' @ e))
      | Parser_recursion \<Rightarrow> Inl RecursionError
      | Parser_memory \<Rightarrow> Inl MemoryError
      | Parser_null_byte \<Rightarrow> Inl (ValueError ''source code string cannot contain null bytes''))"

text \<open>Frames that are enough for the whole walk of a tree.\<close>

fun frames :: "node \<Rightarrow> nat" where
  "frames (Expression body) = Suc (frames body)"
| "frames (BinOp l op r) = Suc (max (frames l) (frames r))"
| "frames (UnaryOp op operand) = Suc (frames operand)"
| "frames (Constant c) = Suc (Suc 0)"
| "frames n = Suc (Suc ast_num_frames)"

subsection \<open>Reading an expression\<close>

text \<open>
  \<^verbatim>\<open>ast.parse\<close> is Python's own parser. What follows reads the part of Python's
  expression grammar that is built from decimal numbers, names, plain string
  literals, the operators \<^verbatim>\<open>+ - * / // % @ ** << >> & | ^ ~\<close>, \<^verbatim>\<open>not\<close>, parentheses and
  calls with at most one argument, with Python's precedences. It has three outcomes:
  a tree, a \<^verbatim>\<open>SyntaxError\<close>, or \<open>None\<close> for a text outside this part of the grammar,
  about which it says nothing. A string is a list of characters with code points
  below 256.
\<close>

datatype token =
    NUMBER pyconst | NAME string | STRING string | KWCONST pyconst
  | OP operator | TILDE | NOT | LPAR | RPAR | ASSIGN | BAD

definition is_digit :: "char \<Rightarrow> bool" where
  "is_digit c = (c \<in> set ''0123456789'')"

definition is_letter :: "char \<Rightarrow> bool" where
  "is_letter c =
     (c \<in> set ''abcdefghijklmnopqrstuvwxyz'' \<or> c \<in> set ''ABCDEFGHIJKLMNOPQRSTUVWXYZ'')"

definition is_name_char :: "char \<Rightarrow> bool" where
  "is_name_char c = (is_letter c \<or> is_digit c \<or> c = CHR ''_'')"

definition starts_with :: "char list \<Rightarrow> string \<Rightarrow> bool" where
  "starts_with cs s = (case s of [] \<Rightarrow> False | c # _ \<Rightarrow> c \<in> set cs)"

definition digit_val :: "char \<Rightarrow> nat" where
  "digit_val c = of_char c - 48"

definition decimal :: "string \<Rightarrow> nat" where
  "decimal ds = foldl (\<lambda>a c. 10 * a + digit_val c) 0 ds"

text \<open>
  A number: digits, an optional point with digits, an optional exponent. With a
  point or an exponent it is a float, the nearest to the decimal value; without, an
  integer, which may not start with a zero unless it is zero. A letter or an
  underscore right after the number (\<^verbatim>\<open>0x10\<close>, \<^verbatim>\<open>1j\<close>, \<^verbatim>\<open>1_000\<close>) is outside the part
  read here, as is an integer of more than 4300 digits.
\<close>

definition lex_number :: "string \<Rightarrow> (token \<times> string) option" where
  "lex_number s =
     (let ip = takeWhile is_digit s;
          r1 = dropWhile is_digit s;
          has_point = starts_with ''.'' r1;
          fp = (if has_point then takeWhile is_digit (tl r1) else []);
          r2 = (if has_point then dropWhile is_digit (tl r1) else r1);
          has_exp = starts_with ''eE'' r2;
          r3 = (if has_exp \<and> starts_with ''+-'' (tl r2) then tl (tl r2) else tl r2);
          ed = (if has_exp then takeWhile is_digit r3 else []);
          r4 = (if has_exp then dropWhile is_digit r3 else r2);
          ex = (if has_exp \<and> starts_with ''-'' (tl r2) then - int (decimal ed) else int (decimal ed))
      in if ip = [] \<and> fp = [] then None
         else if has_exp \<and> ed = [] then None
         else if starts_with ''_'' r4 \<or> (r4 \<noteq> [] \<and> is_letter (hd r4)) then None
         else if has_point \<or> has_exp then
           Some (NUMBER (CFloat (round64 (of_nat (decimal (ip @ fp))
                                          * rat_power 10 (ex - int (length fp))))), r4)
         else if 4300 < length ip then None
         else if 1 < length ip \<and> starts_with ''0'' ip \<and> decimal ip \<noteq> 0 then Some (BAD, r4)
         else Some (NUMBER (CInt (int (decimal ip))), r4))"

text \<open>
  A name or a keyword. A keyword that only starts or continues a statement makes
  the text a \<^verbatim>\<open>SyntaxError\<close> in \<^verbatim>\<open>eval\<close> mode wherever it stands; the keywords of
  expressions that are not read here give \<open>None\<close>, as does a name right before a quote
  (a string prefix).
\<close>

definition statement_keywords :: "string list" where
  "statement_keywords =
     [''import'', ''def'', ''class'', ''return'', ''pass'', ''break'', ''continue'', ''del'',
      ''global'', ''nonlocal'', ''assert'', ''raise'', ''try'', ''except'', ''finally'',
      ''while'', ''with'']"

definition other_keywords :: "string list" where
  "other_keywords =
     [''if'', ''else'', ''elif'', ''for'', ''in'', ''is'', ''and'', ''or'', ''lambda'',
      ''await'', ''async'', ''yield'', ''from'', ''as'']"

definition lex_name :: "string \<Rightarrow> (token \<times> string) option" where
  "lex_name s =
     (let w = takeWhile is_name_char s; rest = dropWhile is_name_char s
      in if starts_with [CHR 0x27, CHR 0x22] rest then None
         else if w \<in> set other_keywords then None
         else if w \<in> set statement_keywords then Some (BAD, rest)
         else if w = ''True'' then Some (KWCONST (CBool True), rest)
         else if w = ''False'' then Some (KWCONST (CBool False), rest)
         else if w = ''None'' then Some (KWCONST CNone, rest)
         else if w = ''not'' then Some (NOT, rest)
         else Some (NAME w, rest))"

text \<open>
  A string literal in single or double quotes, of printable ASCII characters without
  a backslash; \<open>q\<close> is the opening quote and \<open>s\<close> the text after it. Triple quotes are
  not read.
\<close>

definition lex_string :: "char \<Rightarrow> string \<Rightarrow> (token \<times> string) option" where
  "lex_string q s =
     (let body = takeWhile (\<lambda>c. c \<noteq> q) s; after = dropWhile (\<lambda>c. c \<noteq> q) s
      in if after = [] then None
         else if list_ex (\<lambda>c. c = CHR 0x5C \<or> of_char c < (32::nat) \<or> (126::nat) < of_char c) body
           then None
         else if body = [] \<and> starts_with [q] (tl after) then None
         else Some (STRING body, tl after))"

text \<open>
  An operator or a parenthesis; \<open>c\<close> is its first character and \<open>cs\<close> the text after
  it. An operator followed by \<^verbatim>\<open>=\<close> (an augmented assignment) is not read, nor is
  \<^verbatim>\<open>==\<close>; a single \<^verbatim>\<open>=\<close> is the token of an assignment or of a keyword argument; \<^verbatim>\<open>;\<close>
  separates statements and is a \<^verbatim>\<open>SyntaxError\<close> in \<^verbatim>\<open>eval\<close> mode.
\<close>

definition lex_op :: "char \<Rightarrow> string \<Rightarrow> (token \<times> string) option" where
  "lex_op c cs =
     (let two = (if c = CHR ''*'' \<and> starts_with ''*'' cs then Some Pow
                 else if c = CHR ''/'' \<and> starts_with ''/'' cs then Some FloorDiv
                 else if c = CHR ''<'' \<and> starts_with ''<'' cs then Some LShift
                 else if c = CHR ''>'' \<and> starts_with ''>'' cs then Some RShift
                 else None);
          one = (if c = CHR ''+'' then Some Add else if c = CHR ''-'' then Some Sub
                 else if c = CHR ''*'' then Some Mult else if c = CHR ''/'' then Some Div
                 else if c = CHR ''%'' then Some Mod else if c = CHR ''@'' then Some MatMult
                 else if c = CHR ''&'' then Some BitAnd else if c = CHR ''|'' then Some BitOr
                 else if c = CHR ''^'' then Some BitXor else None)
      in case two of
           Some op \<Rightarrow> if starts_with ''='' (tl cs) then None else Some (OP op, tl cs)
         | None \<Rightarrow>
             (case one of
                Some op \<Rightarrow> if starts_with ''='' cs then None else Some (OP op, cs)
              | None \<Rightarrow>
                  if c = CHR ''~'' then Some (TILDE, cs)
                  else if c = CHR ''('' then Some (LPAR, cs)
                  else if c = CHR '')'' then Some (RPAR, cs)
                  else if c = CHR '';'' then Some (BAD, cs)
                  else if c = CHR ''='' \<and> \<not> starts_with ''='' cs then Some (ASSIGN, cs)
                  else None))"

text \<open>
  The tokens of a text. Blanks and tabs separate tokens; every other character that
  starts none of the tokens above gives \<open>None\<close>. The first argument bounds the number of
  steps; each step consumes a character, so the length of the text is enough.
\<close>

fun lex_fuel :: "nat \<Rightarrow> string \<Rightarrow> token list option" where
  "lex_fuel 0 s = (if s = [] then Some [] else None)"
| "lex_fuel (Suc n) [] = Some []"
| "lex_fuel (Suc n) (c # cs) =
     (if c = CHR '' '' \<or> c = CHR 0x09 then lex_fuel n cs
      else (case (if is_digit c \<or> c = CHR ''.'' then lex_number (c # cs)
                  else if is_letter c \<or> c = CHR ''_'' then lex_name (c # cs)
                  else if c = CHR 0x27 \<or> c = CHR 0x22 then lex_string c cs
                  else lex_op c cs) of
              None \<Rightarrow> None
            | Some (t, rest) \<Rightarrow> map_option ((#) t) (lex_fuel n rest)))"

text \<open>A text that starts with a blank is not read (Python reports an indentation).\<close>

definition tokenize :: "string \<Rightarrow> token list option" where
  "tokenize s = (if starts_with [CHR '' '', CHR 0x09] s then None else lex_fuel (length s) s)"

text \<open>
  The grammar, from the loosest binding to the tightest (the names are those of
  Python's grammar):
  \<^verbatim>\<open>
  inversion:  'not' inversion | bitwise_or
  bitwise_or: bitwise_or '|' bitwise_xor | bitwise_xor        (level 0)
  bitwise_xor: bitwise_xor '^' bitwise_and | bitwise_and      (level 1)
  bitwise_and: bitwise_and '&' shift_expr | shift_expr        (level 2)
  shift_expr: shift_expr ('<<'|'>>') sum | sum                (level 3)
  sum:        sum ('+'|'-') term | term                       (level 4)
  term:       term ('*'|'/'|'//'|'%'|'@') factor | factor     (level 5)
  factor:     ('+'|'-'|'~') factor | power
  power:      primary '**' factor | primary
  primary:    primary '(' [inversion] ')' | atom
  atom:       NUMBER | NAME | 'True' | 'False' | 'None' | STRING | '(' ')' | '(' inversion ')'
  \<close>
  The left-recursive rules are loops that extend the operand on the left, so the
  binary operators of one level associate to the left; \<^verbatim>\<open>**\<close> takes a \<^verbatim>\<open>factor\<close> on its
  right, so it associates to the right and binds tighter than a unary operator on its
  left. The outcome \<open>Outside\<close> is for what Python may accept and this reader does not:
  a \<^verbatim>\<open>*\<close> or \<^verbatim>\<open>**\<close> where an operand is expected (a starred argument), two string
  literals in a row, and \<^verbatim>\<open>=\<close> inside parentheses (a keyword argument). Outside all
  parentheses \<^verbatim>\<open>=\<close> after an expression is an assignment statement, which \<^verbatim>\<open>eval\<close>
  mode refuses like every token left over.
\<close>

datatype 'a presult = Ok 'a | Bad | Outside

definition pbind :: "'a presult \<Rightarrow> ('a \<Rightarrow> 'b presult) \<Rightarrow> 'b presult" where
  "pbind r f = (case r of Ok x \<Rightarrow> f x | Bad \<Rightarrow> Bad | Outside \<Rightarrow> Outside)"

definition binop_at :: "nat \<Rightarrow> token \<Rightarrow> operator option" where
  "binop_at lvl t =
     (case t of
        OP op \<Rightarrow>
          if (lvl = 0 \<and> op = BitOr) \<or> (lvl = 1 \<and> op = BitXor) \<or> (lvl = 2 \<and> op = BitAnd)
             \<or> (lvl = 3 \<and> (op = LShift \<or> op = RShift))
             \<or> (lvl = 4 \<and> (op = Add \<or> op = Sub))
             \<or> (lvl = 5 \<and> (op = Mult \<or> op = Div \<or> op = FloorDiv \<or> op = Mod \<or> op = MatMult))
          then Some op else None
      | _ \<Rightarrow> None)"

definition next_is :: "token \<Rightarrow> token list \<Rightarrow> bool" where
  "next_is t ts = (case ts of [] \<Rightarrow> False | u # _ \<Rightarrow> u = t)"

definition binop_next :: "nat \<Rightarrow> token list \<Rightarrow> operator option" where
  "binop_next lvl ts = (case ts of [] \<Rightarrow> None | t # _ \<Rightarrow> binop_at lvl t)"

definition unary_next :: "token list \<Rightarrow> unaryop option" where
  "unary_next ts =
     (if next_is (OP Add) ts then Some UAdd
      else if next_is (OP Sub) ts then Some USub
      else if next_is TILDE ts then Some Invert
      else None)"

text \<open>An atom that is a single token (two string literals in a row are not read).\<close>

definition single_atom :: "token list \<Rightarrow> (node \<times> token list) presult" where
  "single_atom ts =
     (case ts of
        NUMBER c # rest \<Rightarrow> Ok (Constant c, rest)
      | KWCONST c # rest \<Rightarrow> Ok (Constant c, rest)
      | NAME x # rest \<Rightarrow> Ok (Name x, rest)
      | STRING x # rest \<Rightarrow>
          (case rest of STRING y # _ \<Rightarrow> Outside | _ \<Rightarrow> Ok (Constant (CStr x), rest))
      | OP op # rest \<Rightarrow> if op = Mult \<or> op = Pow then Outside else Bad
      | _ \<Rightarrow> Bad)"

text \<open>The closing parenthesis after a parenthesised expression or an argument.\<close>

definition closing :: "node \<times> token list \<Rightarrow> (node \<times> token list) presult" where
  "closing r =
     (if next_is RPAR (snd r) then Ok (fst r, tl (snd r))
      else if next_is ASSIGN (snd r) then Outside
      else Bad)"

text \<open>
  The rules of the grammar, as one function: its second argument says which rule is
  being read (the two that continue a left operand carry it), its first argument
  bounds the depth of the calls, and depth 0 gives \<open>Outside\<close>.
\<close>

datatype rule =
    Inversion | Binary nat | BinaryRest nat node | Factor | Power | PrimaryRest node | Atom

fun parse_rule :: "nat \<Rightarrow> rule \<Rightarrow> token list \<Rightarrow> (node \<times> token list) presult" where
  "parse_rule 0 rl ts = Outside"
| "parse_rule (Suc n) Inversion ts =
     (if next_is NOT ts
      then pbind (parse_rule n Inversion (tl ts)) (\<lambda>r. Ok (UnaryOp NotOp (fst r), snd r))
      else parse_rule n (Binary 0) ts)"
| "parse_rule (Suc n) (Binary lvl) ts =
     (if 6 \<le> lvl then parse_rule n Factor ts
      else pbind (parse_rule n (Binary (Suc lvl)) ts)
             (\<lambda>r. parse_rule n (BinaryRest lvl (fst r)) (snd r)))"
| "parse_rule (Suc n) (BinaryRest lvl l) ts =
     (case binop_next lvl ts of
        None \<Rightarrow> Ok (l, ts)
      | Some op \<Rightarrow>
          pbind (parse_rule n (Binary (Suc lvl)) (tl ts))
            (\<lambda>r. parse_rule n (BinaryRest lvl (BinOp l op (fst r))) (snd r)))"
| "parse_rule (Suc n) Factor ts =
     (case unary_next ts of
        Some op \<Rightarrow> pbind (parse_rule n Factor (tl ts)) (\<lambda>r. Ok (UnaryOp op (fst r), snd r))
      | None \<Rightarrow> parse_rule n Power ts)"
| "parse_rule (Suc n) Power ts =
     pbind (pbind (parse_rule n Atom ts) (\<lambda>r. parse_rule n (PrimaryRest (fst r)) (snd r)))
       (\<lambda>b. if next_is (OP Pow) (snd b)
            then pbind (parse_rule n Factor (tl (snd b)))
                   (\<lambda>r. Ok (BinOp (fst b) Pow (fst r), snd r))
            else Ok b)"
| "parse_rule (Suc n) (PrimaryRest f) ts =
     (if next_is LPAR ts then
        (if next_is RPAR (tl ts) then parse_rule n (PrimaryRest (Call f [])) (tl (tl ts))
         else pbind (pbind (parse_rule n Inversion (tl ts)) closing)
                (\<lambda>r. parse_rule n (PrimaryRest (Call f [fst r])) (snd r)))
      else Ok (f, ts))"
| "parse_rule (Suc n) Atom ts =
     (if next_is LPAR ts then
        (if next_is RPAR (tl ts) then Ok (TupleNode [], tl (tl ts))
         else pbind (parse_rule n Inversion (tl ts)) closing)
      else single_atom ts)"

text \<open>Depth enough for the tokens: sixteen calls for each token and sixteen more.\<close>

fun depth_for :: "token list \<Rightarrow> nat" where
  "depth_for [] = Suc (Suc (Suc (Suc (Suc (Suc (Suc (Suc (Suc (Suc (Suc (Suc (Suc (Suc (Suc (Suc 0)))))))))))))))"
| "depth_for (t # ts) =
     Suc (Suc (Suc (Suc (Suc (Suc (Suc (Suc (Suc (Suc (Suc (Suc (Suc (Suc (Suc (Suc (depth_for ts))))))))))))))))"

text \<open>
  \<^verbatim>\<open>ast.parse(expr, mode='eval')\<close> on the part of the grammar read here: \<open>Some (Inr tree)\<close>
  with the \<^verbatim>\<open>Expression\<close> node around the tree of the whole text, \<open>Some (Inl e)\<close> for a
  \<^verbatim>\<open>SyntaxError\<close> with text \<open>e\<close>, and \<open>None\<close> for a text that is not read. Python's
  parser has limits of its own (200 nested parentheses, the depth of its recursion,
  memory), which only a long text can reach: a text of more than 64 tokens is not
  read.
\<close>

definition ast_parse :: "string \<Rightarrow> (string + node) option" where
  "ast_parse s =
     (case tokenize s of
        None \<Rightarrow> None
      | Some ts \<Rightarrow>
          if 64 < length ts then None
          else if BAD \<in> set ts then Some (Inl (syntax_error_text s))
          else (case parse_rule (depth_for ts) Inversion ts of
                  Ok (x, []) \<Rightarrow> Some (Inr (Expression x))
                | Ok (x, t # rest) \<Rightarrow> Some (Inl (syntax_error_text s))
                | Bad \<Rightarrow> Some (Inl (syntax_error_text s))
                | Outside \<Rightarrow> None))"

text \<open>\<^verbatim>\<open>safe_eval\<close> on a text: \<open>None\<close> where the text is not read.\<close>

definition safe_eval :: "string \<Rightarrow> (exn + pyval) option" where
  "safe_eval expr = map_option safe_eval_on (ast_parse expr)"

subsection \<open>The prompt loops and the command line\<close>

text \<open>
  Python's \<^verbatim>\<open>str.isalpha\<close>, \<^verbatim>\<open>str.lower\<close> and the white space of \<^verbatim>\<open>str.strip\<close>, on the
  characters with code points below 256.
\<close>

definition py_isalpha :: "char \<Rightarrow> bool" where
  "py_isalpha c =
     (let n = (of_char c :: nat)
      in (65 \<le> n \<and> n \<le> 90) \<or> (97 \<le> n \<and> n \<le> 122) \<or> n = 170 \<or> n = 181 \<or> n = 186
         \<or> (192 \<le> n \<and> n \<le> 214) \<or> (216 \<le> n \<and> n \<le> 246) \<or> (248 \<le> n \<and> n \<le> 255))"

definition py_lower :: "char \<Rightarrow> char" where
  "py_lower c =
     (let n = (of_char c :: nat)
      in if (65 \<le> n \<and> n \<le> 90) \<or> (192 \<le> n \<and> n \<le> 214) \<or> (216 \<le> n \<and> n \<le> 222)
         then char_of (n + 32) else c)"

definition py_isspace :: "char \<Rightarrow> bool" where
  "py_isspace c =
     (let n = (of_char c :: nat)
      in (9 \<le> n \<and> n \<le> 13) \<or> (28 \<le> n \<and> n \<le> 32) \<or> n = 133 \<or> n = 160)"

definition strip :: "string \<Rightarrow> string" where
  "strip s = rev (dropWhile py_isspace (rev (dropWhile py_isspace s)))"

text \<open>
  What the \<^verbatim>\<open>try\<close> statement of the two loops prints for an outcome of
  \<^verbatim>\<open>safe_eval\<close>:
  \<^verbatim>\<open>
  try:
      result = safe_eval(s)
      print(f'Answer is: {result}')
  except SyntaxError:
      print('Invalid expression: syntax error')
  except ValueError as e:
      print('Invalid expression:', e)
  except ZeroDivisionError:
      print('Math error: division by zero')
  except Exception as e:
      print('Error:', e)
  \<close>
  The answer and the text of the last handler are kept as the value and the
  exception they render. The \<^verbatim>\<open>print\<close> of the answer stands inside the \<^verbatim>\<open>try\<close>: on the
  Pythons that limit the conversion of an \<^verbatim>\<open>int\<close> to text (3.11 and later, and the later
  releases of 3.8 to 3.10) an integer of more than 4300 digits makes it raise a
  \<^verbatim>\<open>ValueError\<close>, which the second handler prints.
\<close>

datatype line = Answer pyval | Printed string | ErrorLine exn

definition digit_limit :: int where
  "digit_limit = 10 ^ 4300"

fun over_digit_limit :: "pyval \<Rightarrow> bool" where
  "over_digit_limit (IntV n) = (digit_limit \<le> \<bar>n\<bar>)"
| "over_digit_limit _ = False"

definition digit_limit_text :: string where
  "digit_limit_text =
     ''Exceeds the limit (4300 digits) for integer string conversion; '' @
     ''use sys.set_int_max_str_digits() to increase the limit''"

fun report :: "exn + pyval \<Rightarrow> line" where
  "report (Inr result) =
     (if over_digit_limit result then Printed (''Invalid expression: '' @ digit_limit_text)
      else Answer result)"
| "report (Inl (SyntaxError e)) = Printed ''Invalid expression: syntax error''"
| "report (Inl (ValueError e)) = Printed (''Invalid expression: '' @ e)"
| "report (Inl ZeroDivisionError) = Printed ''Math error: division by zero''"
| "report (Inl e) = ErrorLine e"

text \<open>
  One line of input in \<^verbatim>\<open>repl\<close>, up to the question whether to go on:
  \<^verbatim>\<open>
  s = input('> ').strip()
  if not s: continue
  if s.lower() in ('quit', 'exit'): break
  if any(c.isalpha() for c in s):
      print('Only numbers and operators are allowed')
      continue
  try: ...
  \<close>
  The loop under \<^verbatim>\<open>__main__\<close> differs in its first test, which opens \<^verbatim>\<open>repl\<close> on an
  empty line. The \<^verbatim>\<open>try\<close> statement is the argument \<open>attempt\<close>, so that a step which
  does not depend on it does not reach \<^verbatim>\<open>safe_eval\<close>.
\<close>

datatype 'a step = Continue | Break | OpenRepl | Refuse string | Tried 'a

definition repl_step :: "(string \<Rightarrow> 'a) \<Rightarrow> string \<Rightarrow> 'a step" where
  "repl_step attempt raw =
     (let s = strip raw
      in if s = [] then Continue
         else if map py_lower s \<in> {''quit'', ''exit''} then Break
         else if list_ex py_isalpha s then Refuse ''Only numbers and operators are allowed''
         else Tried (attempt s))"

definition main_step :: "(string \<Rightarrow> 'a) \<Rightarrow> string \<Rightarrow> 'a step" where
  "main_step attempt raw =
     (let s = strip raw
      in if s = [] then OpenRepl
         else if map py_lower s \<in> {''quit'', ''exit''} then Break
         else if list_ex py_isalpha s then Refuse ''Only numbers and operators are allowed''
         else Tried (attempt s))"

text \<open>
  With arguments on the command line the program evaluates them joined by blanks,
  without a test for letters:
  \<^verbatim>\<open>
  expr = ' '.join(sys.argv[1:])
  try:
      result = safe_eval(expr)
      print(f'Answer is: {result}')
  except Exception as e:
      print('Error:', e)
      sys.exit(1)
  \<close>
\<close>

fun join_blank :: "string list \<Rightarrow> string" where
  "join_blank [] = []"
| "join_blank [a] = a"
| "join_blank (a # b # rest) = a @ '' '' @ join_blank (b # rest)"

fun report_all :: "exn + pyval \<Rightarrow> line" where
  "report_all (Inr result) =
     (if over_digit_limit result then ErrorLine (ValueError digit_limit_text) else Answer result)"
| "report_all (Inl e) = ErrorLine e"

definition command_line :: "string list \<Rightarrow> line option" where
  "command_line args = map_option report_all (safe_eval (join_blank args))"

subsection \<open>What the statements below speak of\<close>

text \<open>All the nodes of a tree, the tree itself first.\<close>

fun subnodes :: "node \<Rightarrow> node list" where
  "subnodes (Expression b) = Expression b # subnodes b"
| "subnodes (BinOp l op r) = BinOp l op r # subnodes l @ subnodes r"
| "subnodes (UnaryOp op x) = UnaryOp op x # subnodes x"
| "subnodes (Constant c) = [Constant c]"
| "subnodes (Name x) = [Name x]"
| "subnodes (Call f args) = Call f args # subnodes f @ concat (map subnodes args)"
| "subnodes (Attribute x a) = Attribute x a # subnodes x"
| "subnodes (Subscript x i) = Subscript x i # subnodes x @ subnodes i"
| "subnodes (Compare x ops ys) = Compare x ops ys # subnodes x @ concat (map subnodes ys)"
| "subnodes (BoolOp op xs) = BoolOp op xs # concat (map subnodes xs)"
| "subnodes (NamedExpr x y) = NamedExpr x y # subnodes x @ subnodes y"
| "subnodes (ListNode xs) = ListNode xs # concat (map subnodes xs)"
| "subnodes (TupleNode xs) = TupleNode xs # concat (map subnodes xs)"
| "subnodes (SetNode xs) = SetNode xs # concat (map subnodes xs)"
| "subnodes (DictNode ks vs) = DictNode ks vs # concat (map subnodes ks) @ concat (map subnodes vs)"
| "subnodes (OtherExpr c xs) = OtherExpr c xs # concat (map subnodes xs)"

definition supported_binary :: "operator \<Rightarrow> bool" where
  "supported_binary op = (op \<in> {Add, Sub, Mult, Div, Mod, Pow})"

definition supported_unary :: "unaryop \<Rightarrow> bool" where
  "supported_unary op = (op \<in> {UAdd, USub})"

text \<open>
  The nodes \<^verbatim>\<open>_eval\<close> takes without an exception of its own: the wrapper, the six
  binary and two unary operators, and a constant that is an \<^verbatim>\<open>int\<close>, a \<^verbatim>\<open>float\<close> or
  a \<^verbatim>\<open>bool\<close>.
\<close>

fun accepted :: "node \<Rightarrow> bool" where
  "accepted (Expression b) = True"
| "accepted (BinOp l op r) = supported_binary op"
| "accepted (UnaryOp op x) = supported_unary op"
| "accepted (Constant (CInt n)) = True"
| "accepted (Constant (CFloat f)) = True"
| "accepted (Constant (CBool b)) = True"
| "accepted _ = False"

text \<open>
  The constructs the specification wants rejected, node by node: a name, a call, an
  attribute access, a subscript, a string or collection literal (and the other
  constants that are no numbers), a comparison, a logical operator (\<^verbatim>\<open>and\<close>, \<^verbatim>\<open>or\<close>,
  \<^verbatim>\<open>not\<close>), an assignment expression, and every node class that is none of the
  arithmetic ones. A \<^verbatim>\<open>bool\<close> constant is not in the list: what the program does with
  it is the subject of a statement of its own.
\<close>

fun rejected_construct :: "node \<Rightarrow> bool" where
  "rejected_construct (Expression b) = False"
| "rejected_construct (BinOp l op r) = False"
| "rejected_construct (UnaryOp op x) = (op = NotOp)"
| "rejected_construct (Constant (CInt n)) = False"
| "rejected_construct (Constant (CFloat f)) = False"
| "rejected_construct (Constant (CBool b)) = False"
| "rejected_construct _ = True"

definition has_rejected :: "node \<Rightarrow> bool" where
  "has_rejected t = list_ex rejected_construct (subnodes t)"

text \<open>
  The walk reaches the first rejected construct of a tree after it has evaluated the
  operands to the left of the path that leads to it (and, for \<^verbatim>\<open>not\<close>, the operand of
  \<^verbatim>\<open>not\<close>). \<open>guards\<close> lists these operands in the order of their evaluation, and
  \<open>refusal\<close> is the exception the construct itself raises. \<open>first_raise\<close> is the
  exception of the first tree of a list that raises one.
\<close>

fun guards :: "node \<Rightarrow> node list" where
  "guards (Expression body) = guards body"
| "guards (BinOp l op r) = (if has_rejected l then guards l else l # guards r)"
| "guards (UnaryOp op operand) = (if has_rejected operand then guards operand else [operand])"
| "guards n = []"

fun refusal :: "node \<Rightarrow> exn" where
  "refusal (Expression body) = refusal body"
| "refusal (BinOp l op r) = (if has_rejected l then refusal l else refusal r)"
| "refusal (UnaryOp op operand) =
     (if has_rejected operand then refusal operand
      else ValueError ''Unsupported unary operator'')"
| "refusal (Constant c) = ValueError ''Only numbers are allowed''"
| "refusal n = ValueError ''Expected a numeric literal''"

fun first_raise :: "node list \<Rightarrow> exn option" where
  "first_raise [] = None"
| "first_raise (g # gs) =
     (case inner_eval g of Inl e \<Rightarrow> Some e | Inr v \<Rightarrow> first_raise gs)"

fun unsupported_operator :: "node \<Rightarrow> bool" where
  "unsupported_operator (BinOp l op r) = (\<not> supported_binary op)"
| "unsupported_operator (UnaryOp op x) = (\<not> supported_unary op)"
| "unsupported_operator _ = False"

text \<open>The exceptions of Python's arithmetic, and the texts of the program's own.\<close>

definition arith_error :: "exn \<Rightarrow> bool" where
  "arith_error e = (e = ZeroDivisionError \<or> e = OverflowError \<or> e = TypeError)"

definition eval_messages :: "string list" where
  "eval_messages =
     [''Only numbers are allowed'', ''Expected a numeric literal'',
      ''Unsupported binary operator'', ''Unsupported unary operator'']"

text \<open>A number that is exactly zero.\<close>

fun is_zero :: "pyval \<Rightarrow> bool" where
  "is_zero (BoolV b) = (\<not> b)"
| "is_zero (IntV n) = (n = 0)"
| "is_zero (FloatV f) = (f = Fin 0)"
| "is_zero (ComplexV re im) = (re = Fin 0 \<and> im = Fin 0)"


section \<open>Properties of the arithmetic and of the tree walk\<close>

lemma to_double_error: "to_double v = Inl e \<Longrightarrow> arith_error e"
  by (cases v) (auto simp: long_as_double_def arith_error_def split: pyfloat.splits)

lemma to_complex_error: "to_complex v = Inl e \<Longrightarrow> arith_error e"
  by (cases v) (auto simp: long_as_double_def arith_error_def split: pyfloat.splits sum.splits)

lemma arith_raises:
  assumes "\<And>a b e. on_int a b = Inl e \<Longrightarrow> arith_error e"
    and "\<And>a b e. on_float a b = Inl e \<Longrightarrow> arith_error e"
    and "\<And>a b e. on_complex a b = Inl e \<Longrightarrow> arith_error e"
    and "arith on_int on_float on_complex l r = Inl e"
  shows "arith_error e"
  using assms(4) unfolding arith_def
  by (auto split: option.splits sum.splits if_splits dest: assms(1-3) to_double_error to_complex_error)

lemma complex_pow_error: "complex_pow a b = Inl e \<Longrightarrow> arith_error e"
  by (auto simp: complex_pow_def arith_error_def split: pow_outcome.splits)

lemma float_pow_error: "float_pow x y = Inl e \<Longrightarrow> arith_error e"
  unfolding float_pow_def Let_def
  by (auto split: if_splits sum.splits prod.splits dest: complex_pow_error simp: arith_error_def)

lemma py_add_error: "py_add l r = Inl e \<Longrightarrow> arith_error e"
  unfolding py_add_def by (erule arith_raises[rotated 3]) auto

lemma py_sub_error: "py_sub l r = Inl e \<Longrightarrow> arith_error e"
  unfolding py_sub_def by (erule arith_raises[rotated 3]) auto

lemma py_mul_error: "py_mul l r = Inl e \<Longrightarrow> arith_error e"
  unfolding py_mul_def by (erule arith_raises[rotated 3]) auto

lemma py_truediv_error: "py_truediv l r = Inl e \<Longrightarrow> arith_error e"
  unfolding py_truediv_def
  by (erule arith_raises[rotated 3])
     (auto simp: long_true_divide_def arith_error_def split: if_splits pyfloat.splits)

lemma py_mod_error:
  assumes "py_mod l r = Inl e"
  shows "arith_error e"
proof (cases "is_complex l \<or> is_complex r")
  case True
  with assms show ?thesis by (simp add: py_mod_def arith_error_def)
next
  case False
  with assms have "arith (\<lambda>a b. if b = 0 then Inl ZeroDivisionError else Inr (IntV (a mod b)))
      (\<lambda>a b. if b = Fin 0 then Inl ZeroDivisionError else Inr (FloatV (float_rem a b)))
      (\<lambda>a b. Inl TypeError) l r = Inl e"
    by (simp add: py_mod_def)
  then show ?thesis
    by (rule arith_raises[rotated 3]) (auto simp: arith_error_def split: if_splits)
qed

lemma long_pow_error: "long_pow a b = Inl e \<Longrightarrow> arith_error e"
  unfolding long_pow_def
  by (auto split: if_splits sum.splits pyfloat.splits simp: long_as_double_def arith_error_def
      dest: float_pow_error)

lemma py_pow_error: "py_pow l r = Inl e \<Longrightarrow> arith_error e"
  unfolding py_pow_def
  by (erule arith_raises[rotated 3])
     (auto dest: long_pow_error float_pow_error complex_pow_error split: sum.splits)

subsection \<open>Exceptions of the tree walk\<close>

lemma is_number_error:
  "is_number n = Inl e \<Longrightarrow>
     e = ValueError ''Only numbers are allowed'' \<or> e = ValueError ''Expected a numeric literal''"
  by (cases n rule: is_number.cases) auto

lemma is_number_offending: "\<not> accepted n \<Longrightarrow> \<exists>e. is_number n = Inl e"
  by (cases n rule: is_number.cases) auto

lemma inner_eval_error:
  "inner_eval t = Inl e \<Longrightarrow> arith_error e \<or> (\<exists>m \<in> set eval_messages. e = ValueError m)"
proof (induction t arbitrary: e)
  case (BinOp l op r)
  then show ?case
    by (auto simp: eval_messages_def split: sum.splits if_splits
        dest: py_add_error py_sub_error py_mul_error py_truediv_error py_mod_error py_pow_error)
next
  case (UnaryOp op x)
  then show ?case
    by (auto simp: eval_messages_def split: sum.splits if_splits)
next
  case (Constant c)
  then show ?case
    by (auto simp: eval_messages_def dest: is_number_error)
qed (auto simp: eval_messages_def)

lemma binop_left_raises: "inner_eval l = Inl e \<Longrightarrow> inner_eval (BinOp l op r) = Inl e"
  by simp

lemma binop_right_raises: "inner_eval r = Inl e \<Longrightarrow> \<exists>e'. inner_eval (BinOp l op r) = Inl e'"
  by (cases "inner_eval l") auto

lemma binop_unsupported:
  "\<not> supported_binary op \<Longrightarrow> \<exists>e. inner_eval (BinOp l op r) = Inl e"
  by (cases "inner_eval l"; cases "inner_eval r") (auto simp: supported_binary_def)

lemma unaryop_unsupported:
  "\<not> supported_unary op \<Longrightarrow> \<exists>e. inner_eval (UnaryOp op x) = Inl e"
  by (cases "inner_eval x") (auto simp: supported_unary_def)

lemma offending_raises:
  "list_ex (\<lambda>n. \<not> accepted n) (subnodes t) \<Longrightarrow> \<exists>e. inner_eval t = Inl e"
proof (induction t)
  case (Expression b)
  then show ?case by simp
next
  case (BinOp l op r)
  show ?case
  proof (cases "supported_binary op")
    case False
    then show ?thesis by (rule binop_unsupported)
  next
    case True
    with BinOp.prems have "list_ex (\<lambda>n. \<not> accepted n) (subnodes l)
        \<or> list_ex (\<lambda>n. \<not> accepted n) (subnodes r)"
      by simp
    then show ?thesis
    proof
      assume "list_ex (\<lambda>n. \<not> accepted n) (subnodes l)"
      then obtain e where "inner_eval l = Inl e" using BinOp.IH(1) by blast
      then show ?thesis using binop_left_raises by blast
    next
      assume "list_ex (\<lambda>n. \<not> accepted n) (subnodes r)"
      then obtain e where "inner_eval r = Inl e" using BinOp.IH(2) by blast
      then show ?thesis by (rule binop_right_raises)
    qed
  qed
next
  case (UnaryOp op x)
  show ?case
  proof (cases "supported_unary op")
    case False
    then show ?thesis by (rule unaryop_unsupported)
  next
    case True
    with UnaryOp.prems have "list_ex (\<lambda>n. \<not> accepted n) (subnodes x)" by simp
    then obtain e where "inner_eval x = Inl e" using UnaryOp.IH by blast
    then show ?thesis by simp
  qed
next
  case (Constant c)
  then show ?case by (simp add: is_number_offending)
qed simp_all

lemma rejected_is_offending: "rejected_construct n \<Longrightarrow> \<not> accepted n"
  by (cases n rule: rejected_construct.cases) (auto simp: supported_unary_def)

lemma unsupported_is_offending: "unsupported_operator n \<Longrightarrow> \<not> accepted n"
  by (cases n rule: unsupported_operator.cases) auto

lemma list_ex_weaken: "list_ex P xs \<Longrightarrow> (\<And>x. P x \<Longrightarrow> Q x) \<Longrightarrow> list_ex Q xs"
  by (auto simp: list_ex_iff)

subsection \<open>The walk within a number of frames\<close>

lemma within_agrees:
  "inner_eval_within d t = inner_eval t \<or> inner_eval_within d t = Inl RecursionError"
proof (induction t arbitrary: d)
  case (Expression b)
  then show ?case by (cases d) simp_all
next
  case (BinOp l op r)
  show ?case
  proof (cases d)
    case 0
    then show ?thesis by simp
  next
    case (Suc k)
    from BinOp.IH(1) [of k] BinOp.IH(2) [of k] show ?thesis
      unfolding Suc by (auto split: sum.splits)
  qed
next
  case (UnaryOp op x)
  show ?case
  proof (cases d)
    case 0
    then show ?thesis by simp
  next
    case (Suc k)
    from UnaryOp.IH [of k] show ?thesis
      unfolding Suc by (auto split: sum.splits)
  qed
qed (case_tac d; simp add: is_number_within_def)+

lemma within_enough: "frames t \<le> d \<Longrightarrow> inner_eval_within d t = inner_eval t"
proof (induction t arbitrary: d)
  case (Expression b)
  then show ?case by (cases d) simp_all
next
  case (BinOp l op r)
  show ?case
  proof (cases d)
    case 0
    with BinOp.prems show ?thesis by simp
  next
    case (Suc k)
    with BinOp.prems have "frames l \<le> k" and "frames r \<le> k" by simp_all
    then have "inner_eval_within k l = inner_eval l" and "inner_eval_within k r = inner_eval r"
      by (simp_all add: BinOp.IH)
    then show ?thesis by (simp add: Suc split: sum.splits)
  qed
next
  case (UnaryOp op x)
  show ?case
  proof (cases d)
    case 0
    with UnaryOp.prems show ?thesis by simp
  next
    case (Suc k)
    with UnaryOp.prems have "frames x \<le> k" by simp
    then have "inner_eval_within k x = inner_eval x" by (rule UnaryOp.IH)
    then show ?thesis by (simp add: Suc)
  qed
qed (case_tac d; simp add: is_number_within_def)+

lemma within_never_syntax_error: "inner_eval_within d t \<noteq> Inl (SyntaxError x)"
  using within_agrees [of d t] inner_eval_error [of t "SyntaxError x"]
  by (auto simp: arith_error_def)

subsection \<open>The first rejected construct\<close>

lemma has_rejected_simps:
  "has_rejected (Expression b) = has_rejected b"
  "has_rejected (BinOp l op r) = (has_rejected l \<or> has_rejected r)"
  "has_rejected (UnaryOp uop x) = (uop = NotOp \<or> has_rejected x)"
  "has_rejected (Constant c) = rejected_construct (Constant c)"
  by (simp_all add: has_rejected_def)

lemma rejected_constant:
  "rejected_construct (Constant c) \<Longrightarrow> is_number (Constant c) = Inl (ValueError ''Only numbers are allowed'')"
  by (cases c) simp_all

lemma rejected_outcome:
  "has_rejected t \<Longrightarrow>
   inner_eval t = Inl (case first_raise (guards t) of Some x \<Rightarrow> x | None \<Rightarrow> refusal t)"
proof (induction t)
  case (Expression b)
  then show ?case by (simp add: has_rejected_simps split: option.splits)
next
  case (BinOp l op r)
  show ?case
  proof (cases "has_rejected l")
    case True
    with BinOp.IH(1) show ?thesis by (simp split: option.splits)
  next
    case False
    with BinOp.prems have "has_rejected r" by (simp add: has_rejected_simps)
    with BinOp.IH(2) False show ?thesis by (simp split: sum.splits option.splits)
  qed
next
  case (UnaryOp uop x)
  show ?case
  proof (cases "has_rejected x")
    case True
    with UnaryOp.IH show ?thesis by (simp split: option.splits)
  next
    case False
    with UnaryOp.prems have "uop = NotOp" by (simp add: has_rejected_simps)
    with False show ?thesis by (simp split: sum.splits)
  qed
next
  case (Constant c)
  then show ?case by (simp add: has_rejected_simps rejected_constant)
qed simp_all

lemma rejected_within:
  assumes "has_rejected t"
  shows "inner_eval_within d t = Inl RecursionError
         \<or> inner_eval_within d t
             = Inl (case first_raise (guards t) of Some x \<Rightarrow> x | None \<Rightarrow> refusal t)"
  using within_agrees [of d t] rejected_outcome [OF assms] by auto


subsection \<open>Rounding\<close>

lemma bit_length_bounds: "0 < n \<Longrightarrow> 2 ^ (bit_length n - 1) \<le> n \<and> n < 2 ^ bit_length n"
proof (induction n rule: bit_length.induct)
  case (1 n)
  show ?case
  proof (cases "n div 2 = 0")
    case True
    with 1 have "n = 1" by (simp add: div_eq_0_iff) 
    then show ?thesis by (simp add: bit_length.simps)
  next
    case False
    then have pos: "0 < n div 2" by simp
    from 1 have n0: "n \<noteq> 0" by simp
    define k where "k = bit_length (n div 2)"
    have bl: "bit_length n = Suc k"
      using n0 by (simp add: bit_length.simps [of n] k_def)
    have IH: "2 ^ (k - 1) \<le> n div 2 \<and> n div 2 < 2 ^ k"
      using "1.IH" [OF n0 pos] by (simp add: k_def)
    have kpos: "0 < k"
      using pos by (simp add: k_def bit_length.simps [of "n div 2"])
    then have "(2::nat) ^ k = 2 * 2 ^ (k - 1)"
      by (cases k) simp_all
    with IH have lower: "2 ^ k \<le> n" by linarith
    from IH have "n < 2 * 2 ^ k" by linarith
    with lower show ?thesis by (simp add: bl)
  qed
qed

lemma floor_le_round_half_even: "\<lfloor>y\<rfloor> \<le> round_half_even y"
  by (simp add: round_half_even_def Let_def)

lemma round_half_even_of_int: "round_half_even (of_int m) = m"
  by (simp add: round_half_even_def Let_def)

lemma rounded_large:
  fixes K :: nat and x :: rat
  assumes K: "53 \<le> K" and x: "2 ^ K \<le> x"
  shows "2 ^ K \<le> of_int (round_half_even (x / pow2 (max (ilog2 \<bar>x\<bar>) (- 1022) - 52)))
                  * pow2 (max (ilog2 \<bar>x\<bar>) (- 1022) - 52)"
proof -
  have "(1::rat) \<le> 2 ^ K" by simp
  with x have x1: "1 \<le> x" by linarith
  then have xpos: "0 < x" by linarith
  define n where "n = nat \<lfloor>x\<rfloor>"
  have "(2::int) ^ K \<le> \<lfloor>x\<rfloor>"
    using x by (simp add: le_floor_iff)
  then have "int (2 ^ K) \<le> int n"
    unfolding n_def using xpos by simp
  then have n_big: "2 ^ K \<le> n" by (simp only: of_nat_le_iff)
  have "(1::nat) \<le> 2 ^ K" by simp
  with n_big have npos: "0 < n" by linarith
  define bl where "bl = bit_length n"
  from bit_length_bounds [OF npos] have lo: "2 ^ (bl - 1) \<le> n" and hi: "n < 2 ^ bl"
    by (simp_all add: bl_def)
  from n_big hi have "(2::nat) ^ K < 2 ^ bl" by linarith
  then have bl_big: "K < bl" by simp
  have e: "ilog2 \<bar>x\<bar> = int bl - 1"
    using x1 xpos by (simp add: ilog2_def bl_def n_def)
  define j where "j = bl - 53"
  have blj: "bl - 1 = j + 52" using bl_big K by (simp add: j_def)
  have q: "pow2 (max (ilog2 \<bar>x\<bar>) (- 1022) - 52) = 2 ^ j"
  proof -
    have "max (int bl - 1) (- 1022) - 52 = int j" using bl_big K by (simp add: j_def)
    then show ?thesis by (simp add: e pow2_def)
  qed
  have nx: "of_nat n \<le> x"
    using xpos by (simp add: n_def)
  have "(of_nat (2 ^ (bl - 1)) :: rat) \<le> of_nat n"
    using lo by (simp only: of_nat_le_iff)
  then have "(2::rat) ^ (bl - 1) \<le> of_nat n"
    by (simp only: of_nat_power of_nat_numeral)
  with nx have "(2::rat) ^ (bl - 1) \<le> x" by linarith
  then have xlo: "2 ^ (j + 52) \<le> x"
    by (simp only: blj)
  have "2 ^ 52 \<le> x / 2 ^ j"
    using xlo by (simp add: pos_le_divide_eq power_add mult.commute del: power_numeral)
  then have "(2::int) ^ 52 \<le> \<lfloor>x / 2 ^ j\<rfloor>"
    by (simp add: le_floor_iff del: power_numeral)
  then have "(2::int) ^ 52 \<le> round_half_even (x / 2 ^ j)"
    using floor_le_round_half_even [of "x / 2 ^ j"] by linarith
  then have "(of_int (2 ^ 52) :: rat) \<le> of_int (round_half_even (x / 2 ^ j))"
    by (simp only: of_int_le_iff)
  then have "(2::rat) ^ 52 \<le> of_int (round_half_even (x / 2 ^ j))"
    by (simp del: power_numeral)
  then have "(2::rat) ^ 52 * 2 ^ j \<le> of_int (round_half_even (x / 2 ^ j)) * 2 ^ j"
    by (rule mult_right_mono) simp
  moreover have "(2::rat) ^ K \<le> 2 ^ 52 * 2 ^ j"
  proof -
    have "K \<le> 52 + j" using bl_big by (simp add: j_def)
    then have "(2::rat) ^ K \<le> 2 ^ (52 + j)"
      by (simp add: power_increasing del: power_numeral)
    then show ?thesis by (simp only: power_add)
  qed
  ultimately have "(2::rat) ^ K \<le> of_int (round_half_even (x / 2 ^ j)) * 2 ^ j"
    by (rule order_trans [rotated])
  then show ?thesis by (simp only: q)
qed

lemma round64_overflow:
  assumes "pow2 1024 \<le> x"
  shows "round64 x = PInf"
proof -
  define K where "K = (1024::nat)"
  have p: "pow2 1024 = 2 ^ K" by (simp add: pow2_def K_def)
  have "(0::rat) < 2 ^ K" by simp
  with assms have xpos: "0 < x" unfolding p by linarith
  have "53 \<le> K" by (simp add: K_def)
  moreover have "2 ^ K \<le> x" using assms by (simp only: p)
  ultimately have "2 ^ K \<le> of_int (round_half_even (x / pow2 (max (ilog2 \<bar>x\<bar>) (- 1022) - 52)))
                  * pow2 (max (ilog2 \<bar>x\<bar>) (- 1022) - 52)"
    by (rule rounded_large)
  then have "pow2 1024 \<le> \<bar>of_int (round_half_even (x / pow2 (max (ilog2 \<bar>x\<bar>) (- 1022) - 52)))
                  * pow2 (max (ilog2 \<bar>x\<bar>) (- 1022) - 52)\<bar>"
    unfolding p by linarith
  with xpos show ?thesis
    unfolding round64_def Let_def by simp
qed

lemma long_as_double_overflow:
  assumes "2 ^ 1024 \<le> n"
  shows "long_as_double n = Inl OverflowError"
proof -
  have "(of_int (2 ^ 1024) :: rat) \<le> of_int n"
    using assms by (simp only: of_int_le_iff)
  then have "pow2 1024 \<le> of_int n"
    by (simp add: pow2_def)
  then show ?thesis by (simp add: long_as_double_def round64_overflow)
qed


lemma round64_of_int_whole:
  assumes "round64 (of_int n) = Fin r"
  shows "is_whole r"
proof (cases "n = 0")
  case True
  with assms show ?thesis by (simp add: round64_def is_whole_def)
next
  case False
  define x :: rat where "x = of_int n"
  define bl where "bl = bit_length (nat \<bar>n\<bar>)"
  have ax: "\<bar>x\<bar> = of_int \<bar>n\<bar>" by (simp add: x_def)
  have x1: "1 \<le> \<bar>x\<bar>" using False unfolding ax by (simp only: of_int_1_le_iff)
  have "\<lfloor>\<bar>x\<bar>\<rfloor> = \<bar>n\<bar>" by (simp only: ax floor_of_int)
  then have e: "ilog2 \<bar>x\<bar> = int bl - 1"
    using x1 by (simp add: ilog2_def bl_def)
  have blpos: "0 < bl"
    using False by (simp add: bl_def bit_length.simps [of "nat \<bar>n\<bar>"])
  define q where "q = pow2 (max (ilog2 \<bar>x\<bar>) (- 1022) - 52)"
  define m where "m = round_half_even (x / q)"
  have r: "r = of_int m * q"
    using assms False unfolding round64_def Let_def x_def [symmetric] q_def [symmetric] m_def
    by (simp split: if_splits add: x_def)
  show ?thesis
  proof (cases "53 \<le> bl")
    case True
    define j where "j = bl - 53"
    have "int bl = int j + 53" using True by (simp add: j_def)
    then have "max (int bl - 1) (- 1022) - 52 = int j" by linarith
    then have "q = 2 ^ j" by (simp only: q_def e pow2_def) simp
    then have "r = of_int (m * 2 ^ j)" by (simp only: r of_int_mult of_int_power of_int_numeral)
    then show ?thesis by (simp only: is_whole_def floor_of_int)
  next
    case False
    define k where "k = 53 - bl"
    have "int bl = 53 - int k" using False by (simp add: k_def)
    then have "max (int bl - 1) (- 1022) - 52 = - int k" using blpos by linarith
    moreover have "0 < k" using False by (simp add: k_def)
    ultimately have q: "q = 1 / 2 ^ k" by (simp only: q_def e pow2_def) simp
    have "x / q = of_int n * 2 ^ k" by (simp only: q x_def) simp
    then have "x / q = of_int (n * 2 ^ k)"
      by (simp only: of_int_mult of_int_power of_int_numeral)
    then have "m = n * 2 ^ k" by (simp only: m_def round_half_even_of_int)
    then have "r = of_int n * 2 ^ k * (1 / 2 ^ k)"
      by (simp only: r q of_int_mult of_int_power of_int_numeral)
    then have "r = of_int n" by simp
    then show ?thesis by (simp only: is_whole_def floor_of_int)
  qed
qed

lemma long_as_double_whole:
  assumes "long_as_double n = Inr f"
  shows "\<not> is_fractional f"
proof -
  from assms obtain r where "round64 (of_int n) = Fin r" and "f = Fin r"
    by (auto simp: long_as_double_def split: pyfloat.splits)
  then show ?thesis using round64_of_int_whole by simp
qed

lemma float_pow_whole_is_float:
  "\<not> is_fractional iw \<Longrightarrow> float_pow iv iw = Inr v \<Longrightarrow> is_float v"
  unfolding float_pow_def Let_def
  by (auto split: if_splits)

lemma float_pow_not_int: "float_pow iv iw = Inr v \<Longrightarrow> is_float v \<or> is_complex v"
  unfolding float_pow_def Let_def
  by (auto split: if_splits sum.splits prod.splits)

lemma long_as_double_zero: "long_as_double 0 = Inr (Fin 0)"
  by (simp add: long_as_double_def round64_def)

lemma long_as_double_cases:
  "(\<exists>f. long_as_double n = Inr f) \<or> long_as_double n = Inl OverflowError"
  by (simp add: long_as_double_def split: pyfloat.splits)







subsection \<open>What the reader consumes\<close>

text \<open>
  A rule that succeeds has consumed a prefix of its tokens in which no \<^verbatim>\<open>=\<close> occurs, so
  a text with an \<^verbatim>\<open>=\<close> is never read as a tree.
\<close>

lemma pbind_Ok: "pbind r f = Ok z \<Longrightarrow> \<exists>y. r = Ok y \<and> f y = Ok z"
  by (cases r) (simp_all add: pbind_def)

lemma consumed_refl: "\<exists>pre. ts = pre @ ts \<and> ASSIGN \<notin> set pre"
  by (rule exI [of _ "[]"]) simp

lemma consumed_trans:
  assumes "\<exists>pre. ts = pre @ mid \<and> ASSIGN \<notin> set pre"
    and "\<exists>pre. mid = pre @ rest \<and> ASSIGN \<notin> set pre"
  shows "\<exists>pre. ts = pre @ rest \<and> ASSIGN \<notin> set pre"
proof -
  from assms obtain p q where "ts = p @ mid" "ASSIGN \<notin> set p" "mid = q @ rest" "ASSIGN \<notin> set q"
    by blast
  then have "ts = (p @ q) @ rest \<and> ASSIGN \<notin> set (p @ q)" by simp
  then show ?thesis by blast
qed

lemma consumed_token:
  assumes "next_is t ts" and "t \<noteq> ASSIGN"
  shows "\<exists>pre. ts = pre @ tl ts \<and> ASSIGN \<notin> set pre"
proof -
  from assms(1) have "ts = [t] @ tl ts" by (cases ts) (simp_all add: next_is_def)
  with assms(2) show ?thesis by (intro exI [of _ "[t]"]) simp
qed

lemma consumed_binop:
  assumes "binop_next lvl ts = Some op"
  shows "\<exists>pre. ts = pre @ tl ts \<and> ASSIGN \<notin> set pre"
proof -
  from assms obtain t where ts: "ts = [t] @ tl ts" and "binop_at lvl t = Some op"
    by (cases ts) (simp_all add: binop_next_def)
  then have "t \<noteq> ASSIGN" by (auto simp: binop_at_def)
  with ts show ?thesis by (intro exI [of _ "[t]"]) simp
qed

lemma consumed_unary:
  assumes "unary_next ts = Some op"
  shows "\<exists>pre. ts = pre @ tl ts \<and> ASSIGN \<notin> set pre"
  using assms by (auto simp: unary_next_def intro: consumed_token split: if_splits)

lemma consumed_atom:
  assumes "single_atom ts = Ok (x, rest)"
  shows "\<exists>pre. ts = pre @ rest \<and> ASSIGN \<notin> set pre"
proof (cases ts)
  case Nil
  with assms show ?thesis by (simp add: single_atom_def)
next
  case (Cons t ts')
  with assms have "rest = ts'" and "t \<noteq> ASSIGN"
    by (cases t; auto simp: single_atom_def split: list.splits token.splits if_splits)+
  with Cons show ?thesis by (intro exI [of _ "[t]"]) simp
qed

lemma consumed_closing:
  assumes "closing r = Ok (x, rest)"
  shows "\<exists>pre. snd r = pre @ rest \<and> ASSIGN \<notin> set pre"
proof -
  from assms have "next_is RPAR (snd r)" and "rest = tl (snd r)"
    by (auto simp: closing_def split: if_splits)
  then show ?thesis using consumed_token [of RPAR "snd r"] by simp
qed

lemma parse_rule_consumes:
  "parse_rule n rl ts = Ok (x, rest) \<Longrightarrow> \<exists>pre. ts = pre @ rest \<and> ASSIGN \<notin> set pre"
proof (induction n arbitrary: rl ts x rest)
  case 0
  then show ?case by simp
next
  case (Suc n)
  have IH: "\<exists>pre. ts' = pre @ snd y \<and> ASSIGN \<notin> set pre" if "parse_rule n rl' ts' = Ok y"
    for rl' ts' y
    using Suc.IH [of rl' ts' "fst y" "snd y"] that by simp
  show ?case
  proof (cases rl)
    case Inversion
    show ?thesis
    proof (cases "next_is NOT ts")
      case True
      with Suc.prems Inversion have
        "pbind (parse_rule n Inversion (tl ts)) (\<lambda>r. Ok (UnaryOp NotOp (fst r), snd r))
           = Ok (x, rest)"
        by simp
      from pbind_Ok [OF this] obtain y where y: "parse_rule n Inversion (tl ts) = Ok y"
        and "rest = snd y"
        by auto
      with IH [OF y] consumed_token [OF True] show ?thesis
        by (auto intro: consumed_trans)
    next
      case False
      with Suc.prems Inversion have "parse_rule n (Binary 0) ts = Ok (x, rest)" by simp
      from IH [OF this] show ?thesis by simp
    qed
  next
    case (Binary lvl)
    show ?thesis
    proof (cases "6 \<le> lvl")
      case True
      with Suc.prems Binary have "parse_rule n Factor ts = Ok (x, rest)" by simp
      from IH [OF this] show ?thesis by simp
    next
      case False
      with Suc.prems Binary have
        "pbind (parse_rule n (Binary (Suc lvl)) ts)
           (\<lambda>r. parse_rule n (BinaryRest lvl (fst r)) (snd r)) = Ok (x, rest)"
        by simp
      from pbind_Ok [OF this] obtain y where y: "parse_rule n (Binary (Suc lvl)) ts = Ok y"
        and z: "parse_rule n (BinaryRest lvl (fst y)) (snd y) = Ok (x, rest)"
        by blast
      from IH [OF y] IH [OF z] show ?thesis by (auto intro: consumed_trans)
    qed
  next
    case (BinaryRest lvl l)
    show ?thesis
    proof (cases "binop_next lvl ts")
      case None
      with Suc.prems BinaryRest show ?thesis by (simp add: consumed_refl)
    next
      case (Some op)
      with Suc.prems BinaryRest have
        "pbind (parse_rule n (Binary (Suc lvl)) (tl ts))
           (\<lambda>r. parse_rule n (BinaryRest lvl (BinOp l op (fst r))) (snd r)) = Ok (x, rest)"
        by simp
      from pbind_Ok [OF this] obtain y where y: "parse_rule n (Binary (Suc lvl)) (tl ts) = Ok y"
        and z: "parse_rule n (BinaryRest lvl (BinOp l op (fst y))) (snd y) = Ok (x, rest)"
        by blast
      from consumed_binop [OF Some] IH [OF y] have "\<exists>pre. ts = pre @ snd y \<and> ASSIGN \<notin> set pre"
        by (rule consumed_trans)
      from this IH [OF z] show ?thesis by (auto intro: consumed_trans)
    qed
  next
    case Factor
    show ?thesis
    proof (cases "unary_next ts")
      case None
      with Suc.prems Factor have "parse_rule n Power ts = Ok (x, rest)" by simp
      from IH [OF this] show ?thesis by simp
    next
      case (Some op)
      with Suc.prems Factor have
        "pbind (parse_rule n Factor (tl ts)) (\<lambda>r. Ok (UnaryOp op (fst r), snd r)) = Ok (x, rest)"
        by simp
      from pbind_Ok [OF this] obtain y where y: "parse_rule n Factor (tl ts) = Ok y"
        and "rest = snd y"
        by auto
      with consumed_unary [OF Some] IH [OF y] show ?thesis by (auto intro: consumed_trans)
    qed
  next
    case Power
    with Suc.prems have
      "pbind (pbind (parse_rule n Atom ts) (\<lambda>r. parse_rule n (PrimaryRest (fst r)) (snd r)))
         (\<lambda>b. if next_is (OP Pow) (snd b)
              then pbind (parse_rule n Factor (tl (snd b)))
                     (\<lambda>r. Ok (BinOp (fst b) Pow (fst r), snd r))
              else Ok b) = Ok (x, rest)"
      by simp
    from pbind_Ok [OF this] obtain b where
      b: "pbind (parse_rule n Atom ts) (\<lambda>r. parse_rule n (PrimaryRest (fst r)) (snd r)) = Ok b"
      and rest: "(if next_is (OP Pow) (snd b)
                  then pbind (parse_rule n Factor (tl (snd b)))
                         (\<lambda>r. Ok (BinOp (fst b) Pow (fst r), snd r))
                  else Ok b) = Ok (x, rest)"
      by blast
    from pbind_Ok [OF b] obtain a where a: "parse_rule n Atom ts = Ok a"
      and p: "parse_rule n (PrimaryRest (fst a)) (snd a) = Ok b"
      by blast
    from IH [OF a] IH [OF p] have first: "\<exists>pre. ts = pre @ snd b \<and> ASSIGN \<notin> set pre"
      by (rule consumed_trans)
    show ?thesis
    proof (cases "next_is (OP Pow) (snd b)")
      case True
      with rest have
        "pbind (parse_rule n Factor (tl (snd b))) (\<lambda>r. Ok (BinOp (fst b) Pow (fst r), snd r))
           = Ok (x, rest)"
        by simp
      from pbind_Ok [OF this] obtain y where y: "parse_rule n Factor (tl (snd b)) = Ok y"
        and "rest = snd y"
        by auto
      with consumed_token [OF True] IH [OF y]
      have "\<exists>pre. snd b = pre @ rest \<and> ASSIGN \<notin> set pre"
        by (auto intro: consumed_trans)
      with first show ?thesis by (rule consumed_trans)
    next
      case False
      with rest first show ?thesis by auto
    qed
  next
    case (PrimaryRest f)
    show ?thesis
    proof (cases "next_is LPAR ts")
      case False
      with Suc.prems PrimaryRest show ?thesis by (simp add: consumed_refl)
    next
      case True
      note lpar = consumed_token [OF True]
      show ?thesis
      proof (cases "next_is RPAR (tl ts)")
        case True
        with Suc.prems PrimaryRest \<open>next_is LPAR ts\<close>
        have y: "parse_rule n (PrimaryRest (Call f [])) (tl (tl ts)) = Ok (x, rest)" by simp
        from lpar consumed_token [OF True] have "\<exists>pre. ts = pre @ tl (tl ts) \<and> ASSIGN \<notin> set pre"
          by (auto intro: consumed_trans)
        from this IH [OF y] show ?thesis by (auto intro: consumed_trans)
      next
        case False
        with Suc.prems PrimaryRest \<open>next_is LPAR ts\<close> have
          "pbind (pbind (parse_rule n Inversion (tl ts)) closing)
             (\<lambda>r. parse_rule n (PrimaryRest (Call f [fst r])) (snd r)) = Ok (x, rest)"
          by simp
        from pbind_Ok [OF this] obtain c where
          c: "pbind (parse_rule n Inversion (tl ts)) closing = Ok c"
          and z: "parse_rule n (PrimaryRest (Call f [fst c])) (snd c) = Ok (x, rest)"
          by blast
        from pbind_Ok [OF c] obtain y where
          y: "parse_rule n Inversion (tl ts) = Ok y" and cl: "closing y = Ok c"
          by blast
        from cl have "closing y = Ok (fst c, snd c)" by simp
        from IH [OF y] consumed_closing [OF this]
        have "\<exists>pre. tl ts = pre @ snd c \<and> ASSIGN \<notin> set pre" by (rule consumed_trans)
        with lpar have "\<exists>pre. ts = pre @ snd c \<and> ASSIGN \<notin> set pre"
          by (auto intro: consumed_trans)
        from this IH [OF z] show ?thesis by (auto intro: consumed_trans)
      qed
    qed
  next
    case Atom
    show ?thesis
    proof (cases "next_is LPAR ts")
      case False
      with Suc.prems Atom show ?thesis by (simp add: consumed_atom)
    next
      case True
      note lpar = consumed_token [OF True]
      show ?thesis
      proof (cases "next_is RPAR (tl ts)")
        case True
        with Suc.prems Atom \<open>next_is LPAR ts\<close> have "rest = tl (tl ts)" by simp
        with lpar consumed_token [OF True] show ?thesis by (auto intro: consumed_trans)
      next
        case False
        with Suc.prems Atom \<open>next_is LPAR ts\<close> have
          "pbind (parse_rule n Inversion (tl ts)) closing = Ok (x, rest)"
          by simp
        from pbind_Ok [OF this] obtain y where
          y: "parse_rule n Inversion (tl ts) = Ok y" and cl: "closing y = Ok (x, rest)"
          by blast
        from IH [OF y] consumed_closing [OF cl]
        have "\<exists>pre. tl ts = pre @ rest \<and> ASSIGN \<notin> set pre" by (rule consumed_trans)
        with lpar show ?thesis by (auto intro: consumed_trans)
      qed
    qed
  qed
qed

lemma assignment_is_no_tree:
  assumes "tokenize s = Some ts" and "ASSIGN \<in> set ts"
  shows "ast_parse s = None \<or> ast_parse s = Some (Inl (syntax_error_text s))"
proof (cases "parse_rule (depth_for ts) Inversion ts")
  case (Ok r)
  obtain x rest where r: "r = (x, rest)" by (cases r)
  with Ok parse_rule_consumes obtain pre where "ts = pre @ rest" and "ASSIGN \<notin> set pre" by blast
  with assms(2) have "rest \<noteq> []" by auto
  with assms(1) Ok r show ?thesis by (auto simp: ast_parse_def split: list.splits)
next
  case Bad
  with assms(1) show ?thesis by (simp add: ast_parse_def)
next
  case Outside
  with assms(1) show ?thesis by (simp add: ast_parse_def)
qed

lemma statement_is_syntax_error:
  assumes "tokenize s = Some ts" and "length ts \<le> 64" and "BAD \<in> set ts"
  shows "ast_parse s = Some (Inl (syntax_error_text s))"
  using assms by (simp add: ast_parse_def)

section \<open>Evaluating the model on a text\<close>

text \<open>
  The definitions a concrete evaluation unfolds: those of the tokens, those of the
  grammar, and those of rounding.
\<close>

lemmas lex_defs =
  tokenize_def lex_number_def lex_name_def lex_string_def lex_op_def is_digit_def is_letter_def
  is_name_char_def starts_with_def digit_val_def decimal_def statement_keywords_def
  other_keywords_def Let_def

lemmas parse_defs =
  pbind_def binop_at_def next_is_def binop_next_def unary_next_def single_atom_def closing_def

lemmas round_defs =
  rat_power_def round64_def ilog2_def pow2_def round_half_even_def bit_length.simps

subsection \<open>Tokens and trees of the examples\<close>

lemma tokens_sum_product: "tokenize ''2 + 3 * 4'' = Some [NUMBER (CInt 2), OP Add, NUMBER (CInt 3), OP Mult, NUMBER (CInt 4)]"
  by (simp add: lex_defs)

lemma parse_sum_product:
  "ast_parse ''2 + 3 * 4'' = Some (Inr (Expression (BinOp (Constant (CInt 2)) Add (BinOp (Constant (CInt 3)) Mult (Constant (CInt 4))))))"
  unfolding ast_parse_def tokens_sum_product by (simp add: parse_defs)

lemma tokens_group_product: "tokenize ''(2 + 3) * 4'' = Some [LPAR, NUMBER (CInt 2), OP Add, NUMBER (CInt 3), RPAR, OP Mult, NUMBER (CInt 4)]"
  by (simp add: lex_defs)

lemma parse_group_product:
  "ast_parse ''(2 + 3) * 4'' = Some (Inr (Expression (BinOp (BinOp (Constant (CInt 2)) Add (Constant (CInt 3))) Mult (Constant (CInt 4)))))"
  unfolding ast_parse_def tokens_group_product by (simp add: parse_defs)

lemma tokens_power_tower: "tokenize ''2 ** 3 ** 2'' = Some [NUMBER (CInt 2), OP Pow, NUMBER (CInt 3), OP Pow, NUMBER (CInt 2)]"
  by (simp add: lex_defs)

lemma parse_power_tower:
  "ast_parse ''2 ** 3 ** 2'' = Some (Inr (Expression (BinOp (Constant (CInt 2)) Pow (BinOp (Constant (CInt 3)) Pow (Constant (CInt 2))))))"
  unfolding ast_parse_def tokens_power_tower by (simp add: parse_defs)



lemma tokens_four_div_two: "tokenize ''4 / 2'' = Some [NUMBER (CInt 4), OP Div, NUMBER (CInt 2)]"
  by (simp add: lex_defs)

lemma parse_four_div_two:
  "ast_parse ''4 / 2'' = Some (Inr (Expression (BinOp (Constant (CInt 4)) Div (Constant (CInt 2)))))"
  unfolding ast_parse_def tokens_four_div_two by (simp add: parse_defs)

lemma tokens_four_times_two: "tokenize ''4 * 2'' = Some [NUMBER (CInt 4), OP Mult, NUMBER (CInt 2)]"
  by (simp add: lex_defs)

lemma parse_four_times_two:
  "ast_parse ''4 * 2'' = Some (Inr (Expression (BinOp (Constant (CInt 4)) Mult (Constant (CInt 2)))))"
  unfolding ast_parse_def tokens_four_times_two by (simp add: parse_defs)

lemma tokens_five_div_zero: "tokenize ''5 / 0'' = Some [NUMBER (CInt 5), OP Div, NUMBER (CInt 0)]"
  by (simp add: lex_defs)

lemma parse_five_div_zero:
  "ast_parse ''5 / 0'' = Some (Inr (Expression (BinOp (Constant (CInt 5)) Div (Constant (CInt 0)))))"
  unfolding ast_parse_def tokens_five_div_zero by (simp add: parse_defs)

lemma tokens_five_mod_zero: "tokenize ''5 % 0'' = Some [NUMBER (CInt 5), OP Mod, NUMBER (CInt 0)]"
  by (simp add: lex_defs)

lemma parse_five_mod_zero:
  "ast_parse ''5 % 0'' = Some (Inr (Expression (BinOp (Constant (CInt 5)) Mod (Constant (CInt 0)))))"
  unfolding ast_parse_def tokens_five_mod_zero by (simp add: parse_defs)

lemma tokens_two_plus_a: "tokenize ''2 + a'' = Some [NUMBER (CInt 2), OP Add, NAME ''a'']"
  by (simp add: lex_defs)

lemma parse_two_plus_a:
  "ast_parse ''2 + a'' = Some (Inr (Expression (BinOp (Constant (CInt 2)) Add (Name ''a''))))"
  unfolding ast_parse_def tokens_two_plus_a by (simp add: parse_defs)

lemma tokens_dunder_import: "tokenize ''__import__('os')'' = Some [NAME ''__import__'', LPAR, STRING ''os'', RPAR]"
  by (simp add: lex_defs)

lemma parse_dunder_import:
  "ast_parse ''__import__('os')'' = Some (Inr (Expression (Call (Name ''__import__'') [Constant (CStr ''os'')])))"
  unfolding ast_parse_def tokens_dunder_import by (simp add: parse_defs)

lemma tokens_neg_power: "tokenize ''2 ** -1'' = Some [NUMBER (CInt 2), OP Pow, OP Sub, NUMBER (CInt 1)]"
  by (simp add: lex_defs)

lemma parse_neg_power:
  "ast_parse ''2 ** -1'' = Some (Inr (Expression (BinOp (Constant (CInt 2)) Pow (UnaryOp USub (Constant (CInt 1))))))"
  unfolding ast_parse_def tokens_neg_power by (simp add: parse_defs)

lemma tokens_true_literal: "tokenize ''True'' = Some [KWCONST (CBool True)]"
  by (simp add: lex_defs)

lemma parse_true_literal:
  "ast_parse ''True'' = Some (Inr (Expression (Constant (CBool True))))"
  unfolding ast_parse_def tokens_true_literal by (simp add: parse_defs)

lemma tokens_true_plus_one: "tokenize ''True + 1'' = Some [KWCONST (CBool True), OP Add, NUMBER (CInt 1)]"
  by (simp add: lex_defs)

lemma parse_true_plus_one:
  "ast_parse ''True + 1'' = Some (Inr (Expression (BinOp (Constant (CBool True)) Add (Constant (CInt 1)))))"
  unfolding ast_parse_def tokens_true_plus_one by (simp add: parse_defs)

lemma tokens_zero_div_plus_a: "tokenize ''1/0 + a'' = Some [NUMBER (CInt 1), OP Div, NUMBER (CInt 0), OP Add, NAME ''a'']"
  by (simp add: lex_defs)

lemma parse_zero_div_plus_a:
  "ast_parse ''1/0 + a'' = Some (Inr (Expression (BinOp (BinOp (Constant (CInt 1)) Div (Constant (CInt 0))) Add (Name ''a''))))"
  unfolding ast_parse_def tokens_zero_div_plus_a by (simp add: parse_defs)

lemma tokens_zero_div_floordiv: "tokenize ''1/0 // 2'' = Some [NUMBER (CInt 1), OP Div, NUMBER (CInt 0), OP FloorDiv, NUMBER (CInt 2)]"
  by (simp add: lex_defs)

lemma parse_zero_div_floordiv:
  "ast_parse ''1/0 // 2'' = Some (Inr (Expression (BinOp (BinOp (Constant (CInt 1)) Div (Constant (CInt 0))) FloorDiv (Constant (CInt 2)))))"
  unfolding ast_parse_def tokens_zero_div_floordiv by (simp add: parse_defs)

lemma tokens_floordiv: "tokenize ''7 // 2'' = Some [NUMBER (CInt 7), OP FloorDiv, NUMBER (CInt 2)]"
  by (simp add: lex_defs)

lemma parse_floordiv:
  "ast_parse ''7 // 2'' = Some (Inr (Expression (BinOp (Constant (CInt 7)) FloorDiv (Constant (CInt 2)))))"
  unfolding ast_parse_def tokens_floordiv by (simp add: parse_defs)

lemma tokens_invert: "tokenize ''~5'' = Some [TILDE, NUMBER (CInt 5)]"
  by (simp add: lex_defs)

lemma parse_invert:
  "ast_parse ''~5'' = Some (Inr (Expression (UnaryOp Invert (Constant (CInt 5)))))"
  unfolding ast_parse_def tokens_invert by (simp add: parse_defs)

lemma tokens_sci: "tokenize ''1e3'' = Some [NUMBER (CFloat (Fin 1000))]"
  by (simp add: lex_defs round_defs)

lemma parse_sci:
  "ast_parse ''1e3'' = Some (Inr (Expression (Constant (CFloat (Fin 1000)))))"
  unfolding ast_parse_def tokens_sci by (simp add: parse_defs)

lemma tokens_two_floordiv_a: "tokenize ''2 // a'' = Some [NUMBER (CInt 2), OP FloorDiv, NAME ''a'']"
  by (simp add: lex_defs)

lemma parse_two_floordiv_a:
  "ast_parse ''2 // a'' = Some (Inr (Expression (BinOp (Constant (CInt 2)) FloorDiv (Name ''a''))))"
  unfolding ast_parse_def tokens_two_floordiv_a by (simp add: parse_defs)

lemma tokens_big_div_zero: "tokenize ''2 ** 1024 / 0.0'' = Some [NUMBER (CInt 2), OP Pow, NUMBER (CInt 1024), OP Div, NUMBER (CFloat (Fin 0))]"
  by (simp add: lex_defs round_defs)

lemma parse_big_div_zero:
  "ast_parse ''2 ** 1024 / 0.0'' = Some (Inr (Expression (BinOp (BinOp (Constant (CInt 2)) Pow (Constant (CInt 1024))) Div (Constant (CFloat (Fin 0))))))"
  unfolding ast_parse_def tokens_big_div_zero by (simp add: parse_defs)

lemma tokens_import_os: "tokenize ''import os'' = Some [BAD, NAME ''os'']"
  by (simp add: lex_defs)

lemma parse_import_os: "ast_parse ''import os'' = Some (Inl (syntax_error_text ''import os''))"
  unfolding ast_parse_def tokens_import_os by simp

lemma tokens_two_statements: "tokenize ''2; 3'' = Some [NUMBER (CInt 2), BAD, NUMBER (CInt 3)]"
  by (simp add: lex_defs)

lemma parse_two_statements: "ast_parse ''2; 3'' = Some (Inl (syntax_error_text ''2; 3''))"
  unfolding ast_parse_def tokens_two_statements by simp

lemma tokens_assignment: "tokenize ''a = 1'' = Some [NAME ''a'', ASSIGN, NUMBER (CInt 1)]"
  by (simp add: lex_defs)

lemma parse_assignment: "ast_parse ''a = 1'' = Some (Inl (syntax_error_text ''a = 1''))"
  unfolding ast_parse_def tokens_assignment by (simp add: parse_defs)

subsection \<open>Evaluation of the examples\<close>

lemma eval_sum_product: "safe_eval ''2 + 3 * 4'' = Some (Inr (IntV 14))"
  by (simp add: safe_eval_def parse_sum_product safe_eval_on_def py_add_def py_mul_def arith_def)

lemma eval_group_product: "safe_eval ''(2 + 3) * 4'' = Some (Inr (IntV 20))"
  by (simp add: safe_eval_def parse_group_product safe_eval_on_def py_add_def py_mul_def arith_def)

lemma eval_power_tower: "safe_eval ''2 ** 3 ** 2'' = Some (Inr (IntV 512))"
  by (simp add: safe_eval_def parse_power_tower safe_eval_on_def py_pow_def long_pow_def arith_def)

lemma eval_two_plus_a: "safe_eval ''2 + a'' = Some (Inl (ValueError ''Expected a numeric literal''))"
  by (simp add: safe_eval_def parse_two_plus_a safe_eval_on_def)

lemma eval_dunder_import:
  "safe_eval ''__import__('os')'' = Some (Inl (ValueError ''Expected a numeric literal''))"
  by (simp add: safe_eval_def parse_dunder_import safe_eval_on_def)

lemma eval_import_os:
  "safe_eval ''import os'' = Some (Inl (ValueError (''Syntax error: '' @ syntax_error_text ''import os'')))"
  by (simp add: safe_eval_def parse_import_os safe_eval_on_def)

lemma eval_two_statements:
  "safe_eval ''2; 3'' = Some (Inl (ValueError (''Syntax error: '' @ syntax_error_text ''2; 3'')))"
  by (simp add: safe_eval_def parse_two_statements safe_eval_on_def)

lemma eval_zero_div_plus_a: "safe_eval ''1/0 + a'' = Some (Inl ZeroDivisionError)"
  by (simp add: safe_eval_def parse_zero_div_plus_a safe_eval_on_def py_truediv_def
      long_true_divide_def arith_def)

lemma eval_zero_div_floordiv: "safe_eval ''1/0 // 2'' = Some (Inl ZeroDivisionError)"
  by (simp add: safe_eval_def parse_zero_div_floordiv safe_eval_on_def py_truediv_def
      long_true_divide_def arith_def)

lemma eval_floordiv: "safe_eval ''7 // 2'' = Some (Inl (ValueError ''Unsupported binary operator''))"
  by (simp add: safe_eval_def parse_floordiv safe_eval_on_def)

lemma eval_invert: "safe_eval ''~5'' = Some (Inl (ValueError ''Unsupported unary operator''))"
  by (simp add: safe_eval_def parse_invert safe_eval_on_def)

lemma eval_true_literal: "safe_eval ''True'' = Some (Inr (BoolV True))"
  by (simp add: safe_eval_def parse_true_literal safe_eval_on_def)

lemma eval_true_plus_one: "safe_eval ''True + 1'' = Some (Inr (IntV 2))"
  by (simp add: safe_eval_def parse_true_plus_one safe_eval_on_def py_add_def arith_def)

lemma eval_four_div_two: "safe_eval ''4 / 2'' = Some (Inr (FloatV (Fin 2)))"
  by (simp add: safe_eval_def parse_four_div_two safe_eval_on_def py_truediv_def
      long_true_divide_def arith_def round_defs)

lemma eval_four_times_two: "safe_eval ''4 * 2'' = Some (Inr (IntV 8))"
  by (simp add: safe_eval_def parse_four_times_two safe_eval_on_def py_mul_def arith_def)

lemma eval_five_div_zero: "safe_eval ''5 / 0'' = Some (Inl ZeroDivisionError)"
  by (simp add: safe_eval_def parse_five_div_zero safe_eval_on_def py_truediv_def
      long_true_divide_def arith_def)

lemma eval_five_mod_zero: "safe_eval ''5 % 0'' = Some (Inl ZeroDivisionError)"
  by (simp add: safe_eval_def parse_five_mod_zero safe_eval_on_def py_mod_def arith_def)


lemma long_as_double_two: "long_as_double 2 = Inr (Fin 2)"
  by (simp add: long_as_double_def round_defs)

lemma long_as_double_minus_one: "long_as_double (- 1) = Inr (Fin (- 1))"
  by (simp add: long_as_double_def round_defs)

lemma round64_half: "round64 (1 / 2) = Fin (1 / 2)"
  by (simp add: round_defs)

lemma floor_minus_one_rat: "\<lfloor>- 1 :: rat\<rfloor> = - 1"
  using floor_of_int [of "- 1", where ?'a = rat] by simp

lemma libm_pow_half: "libm_pow 2 (- 1) = Fin (1 / 2)"
  by (simp add: libm_pow_def is_whole_def rat_power_def floor_minus_one_rat round64_half pow2_def)

lemma float_pow_half: "float_pow (Fin 2) (Fin (- 1)) = Inr (FloatV (Fin (1 / 2)))"
  by (simp add: float_pow_def flt0_def is_odd_integer_def trunc_def is_whole_def libm_pow_half)

lemma eval_neg_power: "safe_eval ''2 ** -1'' = Some (Inr (FloatV (Fin (1 / 2))))"
  by (simp add: safe_eval_def parse_neg_power safe_eval_on_def py_pow_def long_pow_def arith_def
      long_as_double_two long_as_double_minus_one float_pow_half)

lemma eval_sci: "safe_eval ''1e3'' = Some (Inr (FloatV (Fin 1000)))"
  by (simp add: safe_eval_def parse_sci safe_eval_on_def)

lemma long_pow_big: "long_pow 2 1024 = Inr (IntV (2 ^ 1024))"
  by (simp add: long_pow_def del: power_numeral)

lemma eval_big_div_zero: "safe_eval ''2 ** 1024 / 0.0'' = Some (Inl OverflowError)"
  by (simp add: safe_eval_def parse_big_div_zero safe_eval_on_def py_pow_def long_pow_big
      py_truediv_def arith_def long_as_double_overflow del: power_numeral)

lemma eval_assignment:
  "safe_eval ''a = 1'' = Some (Inl (ValueError (''Syntax error: '' @ syntax_error_text ''a = 1'')))"
  by (simp add: safe_eval_def parse_assignment safe_eval_on_def)

lemma eval_two_floordiv_a:
  "safe_eval ''2 // a'' = Some (Inl (ValueError ''Expected a numeric literal''))"
  by (simp add: safe_eval_def parse_two_floordiv_a safe_eval_on_def)

section \<open>The claims\<close>

subsection \<open>Rejected constructs\<close>

lemma clean_error:
  "\<not> has_rejected t \<Longrightarrow> inner_eval t = Inl e \<Longrightarrow>
     arith_error e \<or> e = ValueError ''Unsupported binary operator''
     \<or> e = ValueError ''Unsupported unary operator''"
proof (induction t arbitrary: e)
  case (Expression b)
  then show ?case by (simp add: has_rejected_simps)
next
  case (BinOp l op r)
  from BinOp.prems(1) have l: "\<not> has_rejected l" and r: "\<not> has_rejected r"
    by (simp_all add: has_rejected_simps)
  show ?case
  proof (cases "inner_eval l")
    case (Inl x)
    with BinOp.prems(2) have "inner_eval l = Inl e" by simp
    with l show ?thesis by (rule BinOp.IH(1))
  next
    case left: (Inr a)
    show ?thesis
    proof (cases "inner_eval r")
      case (Inl x)
      with left BinOp.prems(2) have "inner_eval r = Inl e" by simp
      with r show ?thesis by (rule BinOp.IH(2))
    next
      case (Inr b)
      with left BinOp.prems(2) show ?thesis
        by (auto split: if_splits
            dest: py_add_error py_sub_error py_mul_error py_truediv_error py_mod_error py_pow_error)
    qed
  qed
next
  case (UnaryOp uop x)
  from UnaryOp.prems(1) have x: "\<not> has_rejected x" by (simp add: has_rejected_simps)
  show ?case
  proof (cases "inner_eval x")
    case (Inl y)
    with UnaryOp.prems(2) have "inner_eval x = Inl e" by simp
    with x show ?thesis by (rule UnaryOp.IH)
  next
    case (Inr v)
    with UnaryOp.prems(2) show ?thesis by (auto split: if_splits)
  qed
next
  case (Constant c)
  then show ?case by (cases c) (simp_all add: has_rejected_simps)
qed (simp_all add: has_rejected_def)

lemma guards_clean: "g \<in> set (guards t) \<Longrightarrow> \<not> has_rejected g"
  by (induction t) (auto split: if_splits)

lemma first_raise_member: "first_raise gs = Some e \<Longrightarrow> \<exists>g \<in> set gs. inner_eval g = Inl e"
  by (induction gs) (auto split: sum.splits)

lemma first_raise_guards:
  assumes "first_raise (guards t) = Some e"
  shows "arith_error e \<or> e = ValueError ''Unsupported binary operator''
         \<or> e = ValueError ''Unsupported unary operator''"
proof -
  from first_raise_member [OF assms] obtain g where "g \<in> set (guards t)" and "inner_eval g = Inl e"
    by blast
  then show ?thesis using guards_clean clean_error by blast
qed

lemma refusal_texts:
  "refusal t = ValueError ''Only numbers are allowed''
   \<or> refusal t = ValueError ''Expected a numeric literal''
   \<or> refusal t = ValueError ''Unsupported unary operator''"
  by (induction t) auto

text \<open>
  C1, as amended. \<^verbatim>\<open>safe_eval\<close> never returns a value for an input that holds a name, a
  call, an attribute access, a subscript, a string or collection literal, a comparison,
  a logical operator, an assignment or a statement, and it runs none of it: the
  outcome of such a node is an exception whatever its parts are, a name is not looked
  up and a call is not made. What it raises is

  \<^item> for a text the parser refuses, the \<^verbatim>\<open>ValueError\<close> "Syntax error: ..." (every text
    of at most 64 tokens with a statement keyword or a \<^verbatim>\<open>;\<close>, and every text with an
    \<^verbatim>\<open>=\<close> that the reader reads);
  \<^item> for a tree with such a node, the exception of the first operand that raises one
    among those evaluated before the walk reaches the first such node (an exception of
    Python's arithmetic or the \<^verbatim>\<open>ValueError\<close> of an unsupported operator), and when
    there is none the \<^verbatim>\<open>ValueError\<close> of the node itself: "Expected a numeric literal",
    "Only numbers are allowed" for a constant, "Unsupported unary operator" for
    \<^verbatim>\<open>not\<close>;
  \<^item> or \<^verbatim>\<open>RecursionError\<close>, when the frames left do not reach the node; with
    \<open>frames tree\<close> frames left it is not raised.

  The four examples of the specification and \<^verbatim>\<open>a = 1\<close> raise a \<^verbatim>\<open>ValueError\<close>.
\<close>

theorem rejected_construct_never_returns:
  "(has_rejected tree \<longrightarrow>
      safe_eval_on (Inr tree)
        = Inl (case first_raise (guards tree) of Some x \<Rightarrow> x | None \<Rightarrow> refusal tree)
      \<and> (safe_eval_within d (Parsed tree) = safe_eval_on (Inr tree)
          \<or> safe_eval_within d (Parsed tree) = Inl RecursionError)
      \<and> (frames tree \<le> d \<longrightarrow> safe_eval_within d (Parsed tree) = safe_eval_on (Inr tree)))
   \<and> (first_raise (guards tree) = Some e \<longrightarrow>
        arith_error e \<or> e = ValueError ''Unsupported binary operator''
        \<or> e = ValueError ''Unsupported unary operator'')
   \<and> (refusal tree = ValueError ''Only numbers are allowed''
        \<or> refusal tree = ValueError ''Expected a numeric literal''
        \<or> refusal tree = ValueError ''Unsupported unary operator'')
   \<and> inner_eval (Name x) = Inl (ValueError ''Expected a numeric literal'')
   \<and> inner_eval (Call f args) = Inl (ValueError ''Expected a numeric literal'')
   \<and> inner_eval (Attribute obj a) = Inl (ValueError ''Expected a numeric literal'')
   \<and> inner_eval (Subscript obj i) = Inl (ValueError ''Expected a numeric literal'')
   \<and> inner_eval (Compare c ops cs) = Inl (ValueError ''Expected a numeric literal'')
   \<and> inner_eval (BoolOp bop xs) = Inl (ValueError ''Expected a numeric literal'')
   \<and> inner_eval (NamedExpr tgt v) = Inl (ValueError ''Expected a numeric literal'')
   \<and> inner_eval (ListNode xs) = Inl (ValueError ''Expected a numeric literal'')
   \<and> inner_eval (TupleNode xs) = Inl (ValueError ''Expected a numeric literal'')
   \<and> inner_eval (SetNode xs) = Inl (ValueError ''Expected a numeric literal'')
   \<and> inner_eval (DictNode ks vs) = Inl (ValueError ''Expected a numeric literal'')
   \<and> inner_eval (OtherExpr cls xs) = Inl (ValueError ''Expected a numeric literal'')
   \<and> inner_eval (Constant (CStr str)) = Inl (ValueError ''Only numbers are allowed'')
   \<and> inner_eval (Constant (CBytes str)) = Inl (ValueError ''Only numbers are allowed'')
   \<and> inner_eval (Constant (CImag im)) = Inl (ValueError ''Only numbers are allowed'')
   \<and> inner_eval (Constant CNone) = Inl (ValueError ''Only numbers are allowed'')
   \<and> inner_eval (Constant CEllipsis) = Inl (ValueError ''Only numbers are allowed'')
   \<and> safe_eval_on (Inl err) = Inl (ValueError (''Syntax error: '' @ err))
   \<and> safe_eval_within d (Syntax_error err) = Inl (ValueError (''Syntax error: '' @ err))
   \<and> (tokenize s = Some ts \<and> length ts \<le> 64 \<and> BAD \<in> set ts \<longrightarrow>
        safe_eval s = Some (Inl (ValueError (''Syntax error: '' @ syntax_error_text s))))
   \<and> (tokenize s = Some ts \<and> ASSIGN \<in> set ts \<longrightarrow>
        safe_eval s = None
        \<or> safe_eval s = Some (Inl (ValueError (''Syntax error: '' @ syntax_error_text s))))
   \<and> safe_eval ''2 + a'' = Some (Inl (ValueError ''Expected a numeric literal''))
   \<and> safe_eval ''__import__('os')'' = Some (Inl (ValueError ''Expected a numeric literal''))
   \<and> safe_eval ''import os''
       = Some (Inl (ValueError (''Syntax error: '' @ syntax_error_text ''import os'')))
   \<and> safe_eval ''2; 3''
       = Some (Inl (ValueError (''Syntax error: '' @ syntax_error_text ''2; 3'')))
   \<and> safe_eval ''a = 1''
       = Some (Inl (ValueError (''Syntax error: '' @ syntax_error_text ''a = 1'')))"
proof -
  have walk: "safe_eval_on (Inr tree)
        = Inl (case first_raise (guards tree) of Some x \<Rightarrow> x | None \<Rightarrow> refusal tree)
      \<and> (safe_eval_within d (Parsed tree) = safe_eval_on (Inr tree)
          \<or> safe_eval_within d (Parsed tree) = Inl RecursionError)
      \<and> (frames tree \<le> d \<longrightarrow> safe_eval_within d (Parsed tree) = safe_eval_on (Inr tree))"
    if "has_rejected tree"
    using rejected_outcome [OF that] within_agrees [of d tree] within_enough [of tree d]
    by (simp add: safe_eval_on_def safe_eval_within_def)
  have first: "arith_error e \<or> e = ValueError ''Unsupported binary operator''
        \<or> e = ValueError ''Unsupported unary operator''"
    if "first_raise (guards tree) = Some e"
    using that by (rule first_raise_guards)
  have stmt: "safe_eval s = Some (Inl (ValueError (''Syntax error: '' @ syntax_error_text s)))"
    if "tokenize s = Some ts" and "length ts \<le> 64" and "BAD \<in> set ts"
    using statement_is_syntax_error [OF that] by (simp add: safe_eval_def safe_eval_on_def)
  have asg: "safe_eval s = None
        \<or> safe_eval s = Some (Inl (ValueError (''Syntax error: '' @ syntax_error_text s)))"
    if "tokenize s = Some ts" and "ASSIGN \<in> set ts"
    using assignment_is_no_tree [OF that] by (auto simp: safe_eval_def safe_eval_on_def)
  have nodes: "inner_eval (Name x) = Inl (ValueError ''Expected a numeric literal'')
   \<and> inner_eval (Call f args) = Inl (ValueError ''Expected a numeric literal'')
   \<and> inner_eval (Attribute obj a) = Inl (ValueError ''Expected a numeric literal'')
   \<and> inner_eval (Subscript obj i) = Inl (ValueError ''Expected a numeric literal'')
   \<and> inner_eval (Compare c ops cs) = Inl (ValueError ''Expected a numeric literal'')
   \<and> inner_eval (BoolOp bop xs) = Inl (ValueError ''Expected a numeric literal'')
   \<and> inner_eval (NamedExpr tgt v) = Inl (ValueError ''Expected a numeric literal'')
   \<and> inner_eval (ListNode xs) = Inl (ValueError ''Expected a numeric literal'')
   \<and> inner_eval (TupleNode xs) = Inl (ValueError ''Expected a numeric literal'')
   \<and> inner_eval (SetNode xs) = Inl (ValueError ''Expected a numeric literal'')
   \<and> inner_eval (DictNode ks vs) = Inl (ValueError ''Expected a numeric literal'')
   \<and> inner_eval (OtherExpr cls xs) = Inl (ValueError ''Expected a numeric literal'')
   \<and> inner_eval (Constant (CStr str)) = Inl (ValueError ''Only numbers are allowed'')
   \<and> inner_eval (Constant (CBytes str)) = Inl (ValueError ''Only numbers are allowed'')
   \<and> inner_eval (Constant (CImag im)) = Inl (ValueError ''Only numbers are allowed'')
   \<and> inner_eval (Constant CNone) = Inl (ValueError ''Only numbers are allowed'')
   \<and> inner_eval (Constant CEllipsis) = Inl (ValueError ''Only numbers are allowed'')"
    by simp
  have texts: "safe_eval_on (Inl err) = Inl (ValueError (''Syntax error: '' @ err))
   \<and> safe_eval_within d (Syntax_error err) = Inl (ValueError (''Syntax error: '' @ err))"
    by (simp add: safe_eval_on_def safe_eval_within_def)
  note examples = eval_two_plus_a eval_dunder_import eval_import_os eval_two_statements
    eval_assignment
  from walk first refusal_texts [of tree] nodes texts stmt asg examples show ?thesis
    by blast
qed

theorem rejected_construct_never_returns_witness:
  "has_rejected (Expression (BinOp (Constant (CInt 2)) Add (Name ''a'')))
   \<and> first_raise (guards (Expression (BinOp (Constant (CInt 2)) Add (Name ''a'')))) = None
   \<and> refusal (Expression (BinOp (Constant (CInt 2)) Add (Name ''a'')))
       = ValueError ''Expected a numeric literal''
   \<and> safe_eval_on (Inr (Expression (BinOp (Constant (CInt 2)) Add (Name ''a''))))
       = Inl (ValueError ''Expected a numeric literal'')
   \<and> safe_eval_within (frames (Expression (BinOp (Constant (CInt 2)) Add (Name ''a''))))
        (Parsed (Expression (BinOp (Constant (CInt 2)) Add (Name ''a''))))
       = Inl (ValueError ''Expected a numeric literal'')
   \<and> first_raise (guards (BinOp (BinOp (Constant (CInt 1)) Div (Constant (CInt 0))) Add (Name ''a'')))
       = Some ZeroDivisionError
   \<and> arith_error ZeroDivisionError
   \<and> tokenize ''2; 3'' = Some [NUMBER (CInt 2), BAD, NUMBER (CInt 3)]
   \<and> length [NUMBER (CInt 2), BAD, NUMBER (CInt 3)] \<le> 64
   \<and> BAD \<in> set [NUMBER (CInt 2), BAD, NUMBER (CInt 3)]
   \<and> safe_eval ''2; 3''
       = Some (Inl (ValueError (''Syntax error: '' @ syntax_error_text ''2; 3'')))
   \<and> tokenize ''a = 1'' = Some [NAME ''a'', ASSIGN, NUMBER (CInt 1)]
   \<and> ASSIGN \<in> set [NAME ''a'', ASSIGN, NUMBER (CInt 1)]
   \<and> safe_eval ''a = 1''
       = Some (Inl (ValueError (''Syntax error: '' @ syntax_error_text ''a = 1'')))"
proof -
  let ?t = "Expression (BinOp (Constant (CInt 2)) Add (Name ''a''))"
  let ?u = "BinOp (BinOp (Constant (CInt 1)) Div (Constant (CInt 0))) Add (Name ''a'')"
  have rej: "has_rejected ?t" by (simp add: has_rejected_def)
  have none: "first_raise (guards ?t) = None" by (simp add: has_rejected_def)
  have ref: "refusal ?t = ValueError ''Expected a numeric literal''" by (simp add: has_rejected_def)
  have zero: "first_raise (guards ?u) = Some ZeroDivisionError"
    by (simp add: has_rejected_def py_truediv_def arith_def long_true_divide_def)
  from rejected_construct_never_returns
    [where tree = ?t and d = "frames ?t" and s = "''2; 3''"
       and ts = "[NUMBER (CInt 2), BAD, NUMBER (CInt 3)]"]
    rej none ref
  have "safe_eval_on (Inr ?t) = Inl (ValueError ''Expected a numeric literal'')
        \<and> safe_eval_within (frames ?t) (Parsed ?t) = Inl (ValueError ''Expected a numeric literal'')
        \<and> safe_eval ''2; 3''
            = Some (Inl (ValueError (''Syntax error: '' @ syntax_error_text ''2; 3'')))"
    by simp
  moreover from rejected_construct_never_returns [where tree = ?u and e = ZeroDivisionError] zero
  have "arith_error ZeroDivisionError" by simp
  moreover from rejected_construct_never_returns
    [where s = "''a = 1''" and ts = "[NAME ''a'', ASSIGN, NUMBER (CInt 1)]"]
  have "safe_eval ''a = 1''
       = Some (Inl (ValueError (''Syntax error: '' @ syntax_error_text ''a = 1'')))"
    by simp
  ultimately show ?thesis
    using rej none ref zero by (simp add: tokens_two_statements tokens_assignment)
qed

theorem rejected_input_counterexample:
  "ast_parse ''1/0 + a''
     = Some (Inr (Expression (BinOp (BinOp (Constant (CInt 1)) Div (Constant (CInt 0))) Add (Name ''a''))))
   \<and> list_ex rejected_construct
       (subnodes (Expression (BinOp (BinOp (Constant (CInt 1)) Div (Constant (CInt 0))) Add (Name ''a''))))
   \<and> safe_eval ''1/0 + a'' = Some (Inl ZeroDivisionError)"
  by (simp add: parse_zero_div_plus_a eval_zero_div_plus_a)

subsection \<open>Literals, precedence and syntax errors\<close>

text \<open>
  C4. A \<^verbatim>\<open>bool\<close> constant passes \<^verbatim>\<open>_is_number\<close>, and the text \<^verbatim>\<open>True\<close> evaluates to the
  \<^verbatim>\<open>bool\<close> \<^verbatim>\<open>True\<close>, which is no number of the specification; every other constant that
  is no \<^verbatim>\<open>int\<close> or \<^verbatim>\<open>float\<close> is refused with "Only numbers are allowed".
\<close>

theorem bool_literal_is_returned:
  "safe_eval ''True'' = Some (Inr (BoolV True))
   \<and> is_number (Constant (CBool b)) = Inr (BoolV b)
   \<and> is_number (Constant (CStr s)) = Inl (ValueError ''Only numbers are allowed'')
   \<and> is_number (TupleNode xs) = Inl (ValueError ''Expected a numeric literal'')"
  by (simp add: eval_true_literal)

text \<open>
  C6. The reader builds \<^verbatim>\<open>a ** b ** c\<close> as \<^verbatim>\<open>a ** (b ** c)\<close> for all numbers \<open>a\<close>,
  \<open>b\<close>, \<open>c\<close>, and \<^verbatim>\<open>2 ** 3 ** 2\<close> evaluates to 512; the tree nested to the left would
  evaluate to 64.
\<close>

theorem power_is_right_associative:
  "safe_eval ''2 ** 3 ** 2'' = Some (Inr (IntV 512))
   \<and> ast_parse ''2 ** 3 ** 2''
       = Some (Inr (Expression (BinOp (Constant (CInt 2)) Pow
                                  (BinOp (Constant (CInt 3)) Pow (Constant (CInt 2))))))
   \<and> (\<forall>a b c. parse_rule (depth_for [NUMBER a, OP Pow, NUMBER b, OP Pow, NUMBER c]) Inversion
                 [NUMBER a, OP Pow, NUMBER b, OP Pow, NUMBER c]
               = Ok (BinOp (Constant a) Pow (BinOp (Constant b) Pow (Constant c)), []))
   \<and> inner_eval (BinOp (BinOp (Constant (CInt 2)) Pow (Constant (CInt 3))) Pow (Constant (CInt 2)))
       = Inr (IntV 64)"
  by (simp add: eval_power_tower parse_power_tower parse_defs py_pow_def long_pow_def arith_def)

text \<open>
  C8. \<^verbatim>\<open>*\<close> binds tighter than \<^verbatim>\<open>+\<close>, and parentheses override it: for all numbers
  \<open>a\<close>, \<open>b\<close>, \<open>c\<close> the reader builds \<^verbatim>\<open>a + b * c\<close> as \<^verbatim>\<open>a + (b * c)\<close> and
  \<^verbatim>\<open>(a + b) * c\<close> as written; \<^verbatim>\<open>2 + 3 * 4\<close> evaluates to 14 and \<^verbatim>\<open>(2 + 3) * 4\<close> to 20.
\<close>

theorem product_binds_tighter_than_sum:
  "safe_eval ''2 + 3 * 4'' = Some (Inr (IntV 14))
   \<and> safe_eval ''(2 + 3) * 4'' = Some (Inr (IntV 20))
   \<and> (\<forall>a b c. parse_rule (depth_for [NUMBER a, OP Add, NUMBER b, OP Mult, NUMBER c]) Inversion
                 [NUMBER a, OP Add, NUMBER b, OP Mult, NUMBER c]
               = Ok (BinOp (Constant a) Add (BinOp (Constant b) Mult (Constant c)), []))
   \<and> (\<forall>a b c. parse_rule (depth_for [LPAR, NUMBER a, OP Add, NUMBER b, RPAR, OP Mult, NUMBER c])
                 Inversion [LPAR, NUMBER a, OP Add, NUMBER b, RPAR, OP Mult, NUMBER c]
               = Ok (BinOp (BinOp (Constant a) Add (Constant b)) Mult (Constant c), []))"
  by (simp add: eval_sum_product eval_group_product parse_defs)

text \<open>
  C9. \<^verbatim>\<open>safe_eval\<close> never raises a \<^verbatim>\<open>SyntaxError\<close>: the parser's is raised again as a
  \<^verbatim>\<open>ValueError\<close> whose text starts with "Syntax error: ", and the tree walk raises
  none. So the handler \<^verbatim>\<open>except SyntaxError\<close> of the loops is never entered, and no
  outcome of \<^verbatim>\<open>safe_eval\<close> makes them print "Invalid expression: syntax error". The same
  holds within any number of frames and for every outcome of the parser.
\<close>

theorem safe_eval_never_raises_syntax_error:
  "safe_eval_on parsed \<noteq> Inl (SyntaxError d)
   \<and> safe_eval expr \<noteq> Some (Inl (SyntaxError d))
   \<and> safe_eval_on (Inl e) = Inl (ValueError (''Syntax error: '' @ e))
   \<and> report (safe_eval_on parsed) \<noteq> Printed ''Invalid expression: syntax error''
   \<and> safe_eval_within k outcome \<noteq> Inl (SyntaxError d)
   \<and> report (safe_eval_within k outcome) \<noteq> Printed ''Invalid expression: syntax error''"
proof -
  have walk: "inner_eval t \<noteq> Inl (SyntaxError d')" for t d'
    using inner_eval_error [of t "SyntaxError d'"] by (auto simp: arith_error_def)
  have on: "safe_eval_on p \<noteq> Inl (SyntaxError d')" for p d'
    by (cases p) (simp_all add: safe_eval_on_def walk)
  have answer: "report (Inr v) \<noteq> Printed ''Invalid expression: syntax error''" for v
    by (simp add: digit_limit_text_def)
  have tree: "report (inner_eval t) \<noteq> Printed ''Invalid expression: syntax error''" for t
  proof (cases "inner_eval t")
    case (Inl x)
    then have "arith_error x \<or> (\<exists>m \<in> set eval_messages. x = ValueError m)"
      by (rule inner_eval_error)
    with Inl show ?thesis
      by (auto simp: arith_error_def eval_messages_def)
  next
    case (Inr v)
    with answer show ?thesis by simp
  qed
  have printed: "report (safe_eval_on parsed) \<noteq> Printed ''Invalid expression: syntax error''"
    by (cases parsed) (simp_all add: safe_eval_on_def tree)
  have "safe_eval expr \<noteq> Some (Inl (SyntaxError d))"
    using on by (auto simp: safe_eval_def)
  moreover have "safe_eval_within k outcome \<noteq> Inl (SyntaxError d)"
    by (cases outcome) (simp_all add: safe_eval_within_def within_never_syntax_error)
  moreover have "report (safe_eval_within k outcome) \<noteq> Printed ''Invalid expression: syntax error''"
  proof (cases outcome)
    case (Parsed t)
    from within_agrees [of k t] show ?thesis
    proof
      assume "inner_eval_within k t = inner_eval t"
      with Parsed tree show ?thesis by (simp add: safe_eval_within_def)
    next
      assume "inner_eval_within k t = Inl RecursionError"
      with Parsed show ?thesis by (simp add: safe_eval_within_def)
    qed
  qed (simp_all add: safe_eval_within_def)
  ultimately show ?thesis using on printed by (simp add: safe_eval_on_def)
qed

subsection \<open>Unsupported operators\<close>

lemma unsupported_binary_ops:
  "(\<not> supported_binary op)
     = (op = MatMult \<or> op = LShift \<or> op = RShift \<or> op = BitOr \<or> op = BitXor \<or> op = BitAnd
        \<or> op = FloorDiv)"
  by (cases op) (simp_all add: supported_binary_def)

lemma unsupported_unary_ops: "(\<not> supported_unary uop) = (uop = Invert \<or> uop = NotOp)"
  by (cases uop) (simp_all add: supported_unary_def)

lemma unsupported_raises:
  assumes "list_ex unsupported_operator (subnodes tree)"
  shows "\<exists>e. inner_eval tree = Inl e"
proof -
  from assms have "list_ex (\<lambda>n. \<not> accepted n) (subnodes tree)"
    by (rule list_ex_weaken) (rule unsupported_is_offending)
  then show ?thesis by (rule offending_raises)
qed

lemma unsupported_raises_within:
  assumes "list_ex unsupported_operator (subnodes tree)"
  shows "\<exists>e. inner_eval_within d tree = Inl e"
  using unsupported_raises [OF assms] within_agrees [of d tree] by auto

text \<open>
  C10, as amended. The reader builds a tree for an operator outside the six binary
  and two unary ones (\<^verbatim>\<open>// << >> | & ^ @\<close>, \<^verbatim>\<open>~\<close>, \<^verbatim>\<open>not\<close>), and the tree walk refuses it:
  a tree that contains such an operator makes \<^verbatim>\<open>safe_eval\<close> raise an exception, so it
  never returns a value. The operands are evaluated before the operator is looked at,
  the left one first: when an operand raises, that exception is the outcome, whatever
  the operator; when the operands have values, the exception is the \<^verbatim>\<open>ValueError\<close>
  "Unsupported binary operator" or "Unsupported unary operator". The same holds within
  any number of frames, where an operand may also raise \<^verbatim>\<open>RecursionError\<close>. \<^verbatim>\<open>7 // 2\<close>
  and \<^verbatim>\<open>~5\<close> raise the \<^verbatim>\<open>ValueError\<close> of the operator, \<^verbatim>\<open>2 // a\<close> that of the name.
\<close>

theorem unsupported_operator_never_returns:
  "(list_ex unsupported_operator (subnodes tree) \<longrightarrow>
      (\<exists>e. safe_eval_on (Inr tree) = Inl e) \<and> (\<exists>e. safe_eval_within d (Parsed tree) = Inl e))
   \<and> (inner_eval l = Inl el \<longrightarrow> inner_eval (BinOp l op r) = Inl el)
   \<and> (inner_eval l = Inr a \<and> inner_eval r = Inl er \<longrightarrow> inner_eval (BinOp l op r) = Inl er)
   \<and> (inner_eval l = Inr a \<and> inner_eval r = Inr b \<and> \<not> supported_binary op \<longrightarrow>
        inner_eval (BinOp l op r) = Inl (ValueError ''Unsupported binary operator''))
   \<and> (inner_eval x = Inl ex \<longrightarrow> inner_eval (UnaryOp uop x) = Inl ex)
   \<and> (inner_eval x = Inr c \<and> \<not> supported_unary uop \<longrightarrow>
        inner_eval (UnaryOp uop x) = Inl (ValueError ''Unsupported unary operator''))
   \<and> (inner_eval_within d l = Inl el \<longrightarrow> inner_eval_within (Suc d) (BinOp l op r) = Inl el)
   \<and> (inner_eval_within d l = Inr a \<and> inner_eval_within d r = Inl er \<longrightarrow>
        inner_eval_within (Suc d) (BinOp l op r) = Inl er)
   \<and> (inner_eval_within d l = Inr a \<and> inner_eval_within d r = Inr b \<and> \<not> supported_binary op \<longrightarrow>
        inner_eval_within (Suc d) (BinOp l op r) = Inl (ValueError ''Unsupported binary operator''))
   \<and> (inner_eval_within d x = Inl ex \<longrightarrow> inner_eval_within (Suc d) (UnaryOp uop x) = Inl ex)
   \<and> (inner_eval_within d x = Inr c \<and> \<not> supported_unary uop \<longrightarrow>
        inner_eval_within (Suc d) (UnaryOp uop x) = Inl (ValueError ''Unsupported unary operator''))
   \<and> (\<not> supported_binary op)
       = (op = MatMult \<or> op = LShift \<or> op = RShift \<or> op = BitOr \<or> op = BitXor \<or> op = BitAnd
          \<or> op = FloorDiv)
   \<and> (\<not> supported_unary uop) = (uop = Invert \<or> uop = NotOp)
   \<and> ast_parse ''7 // 2''
       = Some (Inr (Expression (BinOp (Constant (CInt 7)) FloorDiv (Constant (CInt 2)))))
   \<and> safe_eval ''7 // 2'' = Some (Inl (ValueError ''Unsupported binary operator''))
   \<and> safe_eval ''~5'' = Some (Inl (ValueError ''Unsupported unary operator''))
   \<and> safe_eval ''2 // a'' = Some (Inl (ValueError ''Expected a numeric literal''))"
proof -
  have never: "(\<exists>e. safe_eval_on (Inr tree) = Inl e) \<and> (\<exists>e. safe_eval_within d (Parsed tree) = Inl e)"
    if "list_ex unsupported_operator (subnodes tree)"
    using unsupported_raises [OF that] unsupported_raises_within [OF that, of d]
    by (simp add: safe_eval_on_def safe_eval_within_def)
  have b1: "inner_eval (BinOp l op r) = Inl el" if "inner_eval l = Inl el"
    using that by simp
  have b2: "inner_eval (BinOp l op r) = Inl er" if "inner_eval l = Inr a" and "inner_eval r = Inl er"
    using that by simp
  have b3: "inner_eval (BinOp l op r) = Inl (ValueError ''Unsupported binary operator'')"
    if "inner_eval l = Inr a" and "inner_eval r = Inr b" and "\<not> supported_binary op"
    using that by (simp add: supported_binary_def)
  have u1: "inner_eval (UnaryOp uop x) = Inl ex" if "inner_eval x = Inl ex"
    using that by simp
  have u2: "inner_eval (UnaryOp uop x) = Inl (ValueError ''Unsupported unary operator'')"
    if "inner_eval x = Inr c" and "\<not> supported_unary uop"
    using that by (simp add: supported_unary_def)
  have wb1: "inner_eval_within (Suc d) (BinOp l op r) = Inl el" if "inner_eval_within d l = Inl el"
    using that by simp
  have wb2: "inner_eval_within (Suc d) (BinOp l op r) = Inl er"
    if "inner_eval_within d l = Inr a" and "inner_eval_within d r = Inl er"
    using that by simp
  have wb3: "inner_eval_within (Suc d) (BinOp l op r) = Inl (ValueError ''Unsupported binary operator'')"
    if "inner_eval_within d l = Inr a" and "inner_eval_within d r = Inr b" and "\<not> supported_binary op"
    using that by (simp add: supported_binary_def)
  have wu1: "inner_eval_within (Suc d) (UnaryOp uop x) = Inl ex" if "inner_eval_within d x = Inl ex"
    using that by simp
  have wu2: "inner_eval_within (Suc d) (UnaryOp uop x) = Inl (ValueError ''Unsupported unary operator'')"
    if "inner_eval_within d x = Inr c" and "\<not> supported_unary uop"
    using that by (simp add: supported_unary_def)
  note ops = unsupported_binary_ops [of op] unsupported_unary_ops [of uop]
  note examples = parse_floordiv eval_floordiv eval_invert eval_two_floordiv_a
  from never b1 b2 b3 u1 u2 wb1 wb2 wb3 wu1 wu2 ops examples show ?thesis
    by blast
qed

theorem unsupported_operator_never_returns_witness:
  "list_ex unsupported_operator
     (subnodes (Expression (BinOp (Constant (CInt 7)) FloorDiv (Constant (CInt 2)))))
   \<and> (\<exists>e. safe_eval_on (Inr (Expression (BinOp (Constant (CInt 7)) FloorDiv (Constant (CInt 2)))))
          = Inl e)
   \<and> inner_eval (Constant (CInt 7)) = Inr (IntV 7)
   \<and> inner_eval (Constant (CInt 2)) = Inr (IntV 2)
   \<and> \<not> supported_binary FloorDiv
   \<and> inner_eval (BinOp (Constant (CInt 7)) FloorDiv (Constant (CInt 2)))
       = Inl (ValueError ''Unsupported binary operator'')
   \<and> inner_eval (Constant (CInt 5)) = Inr (IntV 5)
   \<and> \<not> supported_unary Invert
   \<and> inner_eval (UnaryOp Invert (Constant (CInt 5)))
       = Inl (ValueError ''Unsupported unary operator'')
   \<and> inner_eval (Name ''a'') = Inl (ValueError ''Expected a numeric literal'')
   \<and> inner_eval (BinOp (Constant (CInt 2)) FloorDiv (Name ''a''))
       = Inl (ValueError ''Expected a numeric literal'')
   \<and> inner_eval (BinOp (Name ''a'') FloorDiv (Constant (CInt 2)))
       = Inl (ValueError ''Expected a numeric literal'')
   \<and> inner_eval (UnaryOp Invert (Name ''a'')) = Inl (ValueError ''Expected a numeric literal'')
   \<and> inner_eval_within (Suc 0) (Constant (CInt 7)) = Inl RecursionError
   \<and> inner_eval_within (Suc (Suc 0)) (BinOp (Constant (CInt 7)) FloorDiv (Constant (CInt 2)))
       = Inl RecursionError
   \<and> inner_eval_within (Suc (Suc 0)) (Constant (CInt 7)) = Inr (IntV 7)
   \<and> inner_eval_within (Suc (Suc 0)) (Constant (CInt 2)) = Inr (IntV 2)
   \<and> inner_eval_within (Suc (Suc (Suc 0))) (BinOp (Constant (CInt 7)) FloorDiv (Constant (CInt 2)))
       = Inl (ValueError ''Unsupported binary operator'')"
proof -
  let ?seven = "Constant (CInt 7)" and ?two = "Constant (CInt 2)" and ?five = "Constant (CInt 5)"
  have ops: "\<not> supported_binary FloorDiv" "\<not> supported_unary Invert"
    by (simp_all add: supported_binary_def supported_unary_def)
  have vals: "inner_eval ?seven = Inr (IntV 7)" "inner_eval ?two = Inr (IntV 2)"
    "inner_eval ?five = Inr (IntV 5)"
    "inner_eval (Name ''a'') = Inl (ValueError ''Expected a numeric literal'')"
    by simp_all
  have within: "inner_eval_within (Suc 0) ?seven = Inl RecursionError"
    "inner_eval_within (Suc (Suc 0)) ?seven = Inr (IntV 7)"
    "inner_eval_within (Suc (Suc 0)) ?two = Inr (IntV 2)"
    by (simp_all add: is_number_within_def)
  have present: "list_ex unsupported_operator (subnodes (Expression (BinOp ?seven FloorDiv ?two)))"
    by (simp add: supported_binary_def)
  from unsupported_operator_never_returns
    [where tree = "Expression (BinOp ?seven FloorDiv ?two)" and l = ?seven and r = ?two
       and a = "IntV 7" and b = "IntV 2" and op = FloorDiv and x = ?five and c = "IntV 5"
       and uop = Invert and d = "Suc (Suc 0)"]
    ops vals within present
  have first: "(\<exists>e. safe_eval_on (Inr (Expression (BinOp ?seven FloorDiv ?two))) = Inl e)
      \<and> inner_eval (BinOp ?seven FloorDiv ?two) = Inl (ValueError ''Unsupported binary operator'')
      \<and> inner_eval (UnaryOp Invert ?five) = Inl (ValueError ''Unsupported unary operator'')
      \<and> inner_eval_within (Suc (Suc (Suc 0))) (BinOp ?seven FloorDiv ?two)
          = Inl (ValueError ''Unsupported binary operator'')"
    by blast
  from unsupported_operator_never_returns
    [where l = ?two and r = "Name ''a''" and a = "IntV 2" and op = FloorDiv
       and er = "ValueError ''Expected a numeric literal''" and x = "Name ''a''" and uop = Invert
       and ex = "ValueError ''Expected a numeric literal''"]
    vals
  have second: "inner_eval (BinOp ?two FloorDiv (Name ''a''))
        = Inl (ValueError ''Expected a numeric literal'')
      \<and> inner_eval (UnaryOp Invert (Name ''a'')) = Inl (ValueError ''Expected a numeric literal'')"
    by blast
  from unsupported_operator_never_returns
    [where l = "Name ''a''" and r = ?two and op = FloorDiv
       and el = "ValueError ''Expected a numeric literal''"]
    vals
  have third: "inner_eval (BinOp (Name ''a'') FloorDiv ?two)
        = Inl (ValueError ''Expected a numeric literal'')"
    by blast
  from unsupported_operator_never_returns
    [where l = ?seven and r = ?two and op = FloorDiv and el = RecursionError and d = "Suc 0"]
    within
  have fourth: "inner_eval_within (Suc (Suc 0)) (BinOp ?seven FloorDiv ?two) = Inl RecursionError"
    by blast
  from first second third fourth ops vals within present show ?thesis by blast
qed

theorem unsupported_operator_counterexample:
  "ast_parse ''1/0 // 2''
     = Some (Inr (Expression (BinOp (BinOp (Constant (CInt 1)) Div (Constant (CInt 0))) FloorDiv
                               (Constant (CInt 2)))))
   \<and> list_ex unsupported_operator
       (subnodes (Expression (BinOp (BinOp (Constant (CInt 1)) Div (Constant (CInt 0))) FloorDiv
                                (Constant (CInt 2)))))
   \<and> safe_eval ''1/0 // 2'' = Some (Inl ZeroDivisionError)"
  by (simp add: parse_zero_div_floordiv eval_zero_div_floordiv supported_binary_def)

subsection \<open>Zero divisors, result types and the remainder\<close>

lemma to_double_zero: "is_zero r \<Longrightarrow> \<not> is_complex r \<Longrightarrow> to_double r = Inr (Fin 0)"
  by (cases r) (auto simp: long_as_double_zero)

lemma to_complex_zero: "is_zero r \<Longrightarrow> to_complex r = Inr (Fin 0, Fin 0)"
  by (cases r) (auto simp: long_as_double_zero)

lemma as_int_zero: "is_zero r \<Longrightarrow> as_int r = Some b \<Longrightarrow> b = 0"
  by (cases r) (auto split: if_splits)

lemma to_double_outcomes:
  "\<not> is_complex l \<Longrightarrow> (\<exists>f. to_double l = Inr f) \<or> to_double l = Inl OverflowError"
  using long_as_double_cases by (cases l) auto

lemma to_complex_outcomes:
  "(\<exists>c. to_complex l = Inr c) \<or> (\<not> is_complex l \<and> to_double l = Inl OverflowError \<and> to_complex l = Inl OverflowError)"
proof (cases "is_complex l")
  case True
  then show ?thesis by (cases l) auto
next
  case False
  from to_double_outcomes [OF this] show ?thesis
    using False by (cases l) auto
qed

lemma truediv_by_zero:
  assumes "is_zero r"
  shows "py_truediv l r = Inl ZeroDivisionError
         \<or> (as_int r = None \<and> to_double l = Inl OverflowError \<and> py_truediv l r = Inl OverflowError)"
proof (cases "as_int r")
  case (Some b)
  with assms have b: "b = 0" by (rule as_int_zero)
  have nc: "\<not> is_complex r" using Some by (cases r) auto
  show ?thesis
  proof (cases "as_int l")
    case (Some a)
    with \<open>as_int r = Some b\<close> b show ?thesis
      by (simp add: py_truediv_def arith_def long_true_divide_def)
  next
    case None
    show ?thesis
    proof (cases "is_complex l")
      case True
      then obtain c where "to_complex l = Inr c" by (cases l) auto
      with None True assms show ?thesis
        by (simp add: py_truediv_def arith_def to_complex_zero)
    next
      case False
      with None obtain f where "to_double l = Inr f" by (cases l) auto
      with None False nc assms show ?thesis
        by (simp add: py_truediv_def arith_def to_double_zero)
    qed
  qed
next
  case None
  show ?thesis
  proof (cases "is_complex l \<or> is_complex r")
    case True
    from to_complex_outcomes [of l] show ?thesis
    proof
      assume "\<exists>c. to_complex l = Inr c"
      with None True assms show ?thesis
        by (auto simp: py_truediv_def arith_def to_complex_zero split: option.splits)
    next
      assume "\<not> is_complex l \<and> to_double l = Inl OverflowError \<and> to_complex l = Inl OverflowError"
      with None True show ?thesis
        by (auto simp: py_truediv_def arith_def split: option.splits)
    qed
  next
    case False
    then have nl: "\<not> is_complex l" and nr: "\<not> is_complex r" by simp_all
    from to_double_outcomes [OF nl] show ?thesis
    proof
      assume "\<exists>f. to_double l = Inr f"
      with None False nr assms show ?thesis
        by (auto simp: py_truediv_def arith_def to_double_zero split: option.splits)
    next
      assume "to_double l = Inl OverflowError"
      with None False show ?thesis
        by (auto simp: py_truediv_def arith_def split: option.splits)
    qed
  qed
qed

lemma mod_complex: "is_complex l \<or> is_complex r \<Longrightarrow> py_mod l r = Inl TypeError"
  by (simp add: py_mod_def)

lemma mod_by_zero:
  assumes "is_zero r" and "\<not> is_complex l" and "\<not> is_complex r"
  shows "py_mod l r = Inl ZeroDivisionError
         \<or> (as_int r = None \<and> to_double l = Inl OverflowError \<and> py_mod l r = Inl OverflowError)"
proof (cases "as_int r")
  case (Some b)
  with assms(1) have b: "b = 0" by (rule as_int_zero)
  show ?thesis
  proof (cases "as_int l")
    case (Some a)
    with \<open>as_int r = Some b\<close> b assms show ?thesis
      by (simp add: py_mod_def arith_def)
  next
    case None
    with assms(2) obtain f where "to_double l = Inr f" by (cases l) auto
    with None assms show ?thesis
      by (simp add: py_mod_def arith_def to_double_zero)
  qed
next
  case None
  from to_double_outcomes [OF assms(2)] show ?thesis
  proof
    assume "\<exists>f. to_double l = Inr f"
    with None assms show ?thesis
      by (auto simp: py_mod_def arith_def to_double_zero split: option.splits)
  next
    assume "to_double l = Inl OverflowError"
    with None assms show ?thesis
      by (auto simp: py_mod_def arith_def split: option.splits)
  qed
qed

lemma truediv_overflow:
  "as_int r = None \<Longrightarrow> to_double l = Inl OverflowError \<Longrightarrow> py_truediv l r = Inl OverflowError"
  by (cases l; cases r) (auto simp: py_truediv_def arith_def)

lemma mod_overflow:
  "as_int r = None \<Longrightarrow> \<not> is_complex r \<Longrightarrow> to_double l = Inl OverflowError \<Longrightarrow>
   py_mod l r = Inl OverflowError"
  by (cases l; cases r) (auto simp: py_mod_def arith_def)

text \<open>
  C3, as amended. With a right operand that is exactly zero, \<^verbatim>\<open>/\<close> and \<^verbatim>\<open>%\<close> raise an
  exception and never give a number. The exception is \<^verbatim>\<open>ZeroDivisionError\<close> whenever
  the left operand can be converted to a float where Python converts it (that is, when
  the right operand is not an integer) and, for \<^verbatim>\<open>%\<close>, no operand is complex. An
  integer too large for a float, divided by a float or complex zero, raises
  \<^verbatim>\<open>OverflowError\<close> before the divisor is looked at, and \<^verbatim>\<open>%\<close> with a complex operand
  raises \<^verbatim>\<open>TypeError\<close>. \<^verbatim>\<open>5 / 0\<close> and \<^verbatim>\<open>5 % 0\<close> raise \<^verbatim>\<open>ZeroDivisionError\<close>.
\<close>

theorem zero_divisor_raises:
  "(is_zero r \<longrightarrow> (\<exists>e. py_truediv l r = Inl e) \<and> (\<exists>e. py_mod l r = Inl e))
   \<and> (is_zero r \<and> (as_int r = None \<longrightarrow> to_double l \<noteq> Inl OverflowError) \<longrightarrow>
        py_truediv l r = Inl ZeroDivisionError)
   \<and> (is_zero r \<and> \<not> is_complex l \<and> \<not> is_complex r
        \<and> (as_int r = None \<longrightarrow> to_double l \<noteq> Inl OverflowError) \<longrightarrow>
        py_mod l r = Inl ZeroDivisionError)
   \<and> (as_int r = None \<and> to_double l = Inl OverflowError \<longrightarrow> py_truediv l r = Inl OverflowError)
   \<and> (as_int r = None \<and> \<not> is_complex r \<and> to_double l = Inl OverflowError \<longrightarrow>
        py_mod l r = Inl OverflowError)
   \<and> (is_complex l' \<or> is_complex r' \<longrightarrow> py_mod l' r' = Inl TypeError)
   \<and> (inner_eval lt = Inr l \<and> inner_eval rt = Inr r \<longrightarrow>
        inner_eval (BinOp lt Div rt) = py_truediv l r
        \<and> inner_eval (BinOp lt Mod rt) = py_mod l r)
   \<and> safe_eval ''5 / 0'' = Some (Inl ZeroDivisionError)
   \<and> safe_eval ''5 % 0'' = Some (Inl ZeroDivisionError)"
proof -
  have a: "(\<exists>e. py_truediv l r = Inl e) \<and> (\<exists>e. py_mod l r = Inl e)" if "is_zero r"
  proof (cases "is_complex l \<or> is_complex r")
    case True
    then show ?thesis using truediv_by_zero [OF that, of l] mod_complex [of l r] by auto
  next
    case False
    then show ?thesis using truediv_by_zero [OF that, of l] mod_by_zero [OF that, of l] by auto
  qed
  have b: "py_truediv l r = Inl ZeroDivisionError"
    if "is_zero r" and "as_int r = None \<longrightarrow> to_double l \<noteq> Inl OverflowError"
    using truediv_by_zero [OF that(1), of l] that(2) by auto
  have c: "py_mod l r = Inl ZeroDivisionError"
    if "is_zero r" and "\<not> is_complex l" and "\<not> is_complex r"
      and "as_int r = None \<longrightarrow> to_double l \<noteq> Inl OverflowError"
    using mod_by_zero [OF that(1-3)] that(4) by auto
  have d: "py_truediv l r = Inl OverflowError"
    if "as_int r = None" and "to_double l = Inl OverflowError"
    using that by (rule truediv_overflow)
  have e: "py_mod l r = Inl OverflowError"
    if "as_int r = None" and "\<not> is_complex r" and "to_double l = Inl OverflowError"
    using that by (rule mod_overflow)
  from a b c d e show ?thesis
    by (simp add: mod_complex eval_five_div_zero eval_five_mod_zero)
qed

theorem zero_divisor_raises_witness:
  "is_zero (IntV 0) \<and> \<not> is_complex (IntV 5) \<and> \<not> is_complex (IntV 0) \<and> as_int (IntV 0) = Some 0
   \<and> py_truediv (IntV 5) (IntV 0) = Inl ZeroDivisionError
   \<and> py_mod (IntV 5) (IntV 0) = Inl ZeroDivisionError
   \<and> is_zero (FloatV (Fin 0)) \<and> as_int (FloatV (Fin 0)) = None
   \<and> to_double (FloatV (Fin 5)) = Inr (Fin 5)
   \<and> py_truediv (FloatV (Fin 5)) (FloatV (Fin 0)) = Inl ZeroDivisionError
   \<and> py_mod (FloatV (Fin 5)) (FloatV (Fin 0)) = Inl ZeroDivisionError
   \<and> to_double (IntV (2 ^ 1024)) = Inl OverflowError
   \<and> py_truediv (IntV (2 ^ 1024)) (FloatV (Fin 0)) = Inl OverflowError
   \<and> py_mod (IntV (2 ^ 1024)) (FloatV (Fin 0)) = Inl OverflowError
   \<and> is_complex (ComplexV (Fin 0) (Fin 1))
   \<and> py_mod (ComplexV (Fin 0) (Fin 1)) (IntV 0) = Inl TypeError
   \<and> inner_eval (Constant (CInt 5)) = Inr (IntV 5) \<and> inner_eval (Constant (CInt 0)) = Inr (IntV 0)
   \<and> inner_eval (BinOp (Constant (CInt 5)) Div (Constant (CInt 0))) = Inl ZeroDivisionError
   \<and> inner_eval (BinOp (Constant (CInt 5)) Mod (Constant (CInt 0))) = Inl ZeroDivisionError"
proof -
  have big: "to_double (IntV (2 ^ 1024)) = Inl OverflowError"
    using long_as_double_overflow [of "2 ^ 1024"] by (simp del: power_numeral)
  have basics: "is_zero (IntV 0)" "\<not> is_complex (IntV 5)" "\<not> is_complex (IntV 0)"
    "as_int (IntV 0) = Some 0" "is_zero (FloatV (Fin 0))" "as_int (FloatV (Fin 0)) = None"
    "to_double (FloatV (Fin 5)) = Inr (Fin 5)" "\<not> is_complex (FloatV (Fin 5))"
    "\<not> is_complex (FloatV (Fin 0))" "is_complex (ComplexV (Fin 0) (Fin 1))"
    "inner_eval (Constant (CInt 5)) = Inr (IntV 5)" "inner_eval (Constant (CInt 0)) = Inr (IntV 0)"
    by simp_all
  from zero_divisor_raises
    [where r = "IntV 0" and l = "IntV 5" and l' = "ComplexV (Fin 0) (Fin 1)" and r' = "IntV 0"
       and lt = "Constant (CInt 5)" and rt = "Constant (CInt 0)"]
    basics
  have first: "py_truediv (IntV 5) (IntV 0) = Inl ZeroDivisionError
      \<and> py_mod (IntV 5) (IntV 0) = Inl ZeroDivisionError
      \<and> py_mod (ComplexV (Fin 0) (Fin 1)) (IntV 0) = Inl TypeError
      \<and> inner_eval (BinOp (Constant (CInt 5)) Div (Constant (CInt 0))) = Inl ZeroDivisionError
      \<and> inner_eval (BinOp (Constant (CInt 5)) Mod (Constant (CInt 0))) = Inl ZeroDivisionError"
    by simp
  from zero_divisor_raises [where r = "FloatV (Fin 0)" and l = "FloatV (Fin 5)"] basics
  have second: "py_truediv (FloatV (Fin 5)) (FloatV (Fin 0)) = Inl ZeroDivisionError
      \<and> py_mod (FloatV (Fin 5)) (FloatV (Fin 0)) = Inl ZeroDivisionError"
    by simp
  from zero_divisor_raises [where r = "FloatV (Fin 0)" and l = "IntV (2 ^ 1024)"] basics big
  have third: "py_truediv (IntV (2 ^ 1024)) (FloatV (Fin 0)) = Inl OverflowError
      \<and> py_mod (IntV (2 ^ 1024)) (FloatV (Fin 0)) = Inl OverflowError"
    by blast
  from first second third basics big show ?thesis by blast
qed

theorem zero_divisor_counterexample:
  "ast_parse ''2 ** 1024 / 0.0''
     = Some (Inr (Expression (BinOp (BinOp (Constant (CInt 2)) Pow (Constant (CInt 1024))) Div
                               (Constant (CFloat (Fin 0))))))
   \<and> is_zero (FloatV (Fin 0))
   \<and> inner_eval (BinOp (Constant (CInt 2)) Pow (Constant (CInt 1024))) = Inr (IntV (2 ^ 1024))
   \<and> safe_eval ''2 ** 1024 / 0.0'' = Some (Inl OverflowError)"
  by (simp add: parse_big_div_zero eval_big_div_zero py_pow_def arith_def long_pow_big
      del: power_numeral)

lemma arith_ints:
  "as_int l = Some a \<Longrightarrow> as_int r = Some b \<Longrightarrow> arith on_int on_float on_complex l r = on_int a b"
  by (simp add: arith_def)

lemma arith_floats:
  "as_int l = None \<or> as_int r = None \<Longrightarrow> \<not> is_complex l \<Longrightarrow> \<not> is_complex r \<Longrightarrow>
   arith on_int on_float on_complex l r
     = (case to_double l of Inl e \<Rightarrow> Inl e
        | Inr x \<Rightarrow> (case to_double r of Inl e \<Rightarrow> Inl e | Inr y \<Rightarrow> on_float x y))"
  by (auto simp: arith_def split: option.splits)

lemma as_int_not_complex: "as_int l = Some a \<Longrightarrow> \<not> is_complex l"
  by (cases l) simp_all

text \<open>
  C5, as amended. On two integers (or booleans) \<^verbatim>\<open>+\<close>, \<^verbatim>\<open>-\<close>, \<^verbatim>\<open>*\<close>, \<^verbatim>\<open>%\<close> with a
  divisor other than zero and \<^verbatim>\<open>**\<close> with an exponent that is not negative give an
  integer; \<^verbatim>\<open>/\<close> gives a float whenever it gives a value, and so does \<^verbatim>\<open>**\<close> with a
  negative exponent. With a float operand and no complex one, \<^verbatim>\<open>+ - * / %\<close> give a
  float whenever they give a value, and \<^verbatim>\<open>**\<close> a float or a complex number.
  \<^verbatim>\<open>4 / 2\<close> is the float 2.0 and \<^verbatim>\<open>4 * 2\<close> the integer 8.
\<close>

theorem result_types:
  "(as_int l = Some a \<and> as_int r = Some b \<longrightarrow>
      py_add l r = Inr (IntV (a + b)) \<and> py_sub l r = Inr (IntV (a - b))
      \<and> py_mul l r = Inr (IntV (a * b))
      \<and> (b \<noteq> 0 \<longrightarrow> py_mod l r = Inr (IntV (a mod b)))
      \<and> (0 \<le> b \<longrightarrow> py_pow l r = Inr (IntV (a ^ nat b)))
      \<and> (\<forall>v. py_truediv l r = Inr v \<longrightarrow> is_float v)
      \<and> (b < 0 \<longrightarrow> (\<forall>v. py_pow l r = Inr v \<longrightarrow> is_float v)))
   \<and> ((is_float l' \<or> is_float r') \<and> \<not> is_complex l' \<and> \<not> is_complex r' \<longrightarrow>
      (\<forall>v. py_add l' r' = Inr v \<or> py_sub l' r' = Inr v \<or> py_mul l' r' = Inr v
            \<or> py_truediv l' r' = Inr v \<or> py_mod l' r' = Inr v \<longrightarrow> is_float v)
      \<and> (\<forall>v. py_pow l' r' = Inr v \<longrightarrow> is_float v \<or> is_complex v))
   \<and> safe_eval ''4 / 2'' = Some (Inr (FloatV (Fin 2)))
   \<and> safe_eval ''4 * 2'' = Some (Inr (IntV 8))"
proof -
  have ints: "py_add l r = Inr (IntV (a + b)) \<and> py_sub l r = Inr (IntV (a - b))
      \<and> py_mul l r = Inr (IntV (a * b))
      \<and> (b \<noteq> 0 \<longrightarrow> py_mod l r = Inr (IntV (a mod b)))
      \<and> (0 \<le> b \<longrightarrow> py_pow l r = Inr (IntV (a ^ nat b)))
      \<and> (\<forall>v. py_truediv l r = Inr v \<longrightarrow> is_float v)
      \<and> (b < 0 \<longrightarrow> (\<forall>v. py_pow l r = Inr v \<longrightarrow> is_float v))"
    if l: "as_int l = Some a" and r: "as_int r = Some b"
  proof -
    note ar = arith_ints [OF l r]
    note nc = as_int_not_complex [OF l] as_int_not_complex [OF r]
    have add: "py_add l r = Inr (IntV (a + b))" by (simp add: py_add_def ar)
    have sub: "py_sub l r = Inr (IntV (a - b))" by (simp add: py_sub_def ar)
    have mul: "py_mul l r = Inr (IntV (a * b))" by (simp add: py_mul_def ar)
    have md: "py_mod l r = Inr (IntV (a mod b))" if "b \<noteq> 0"
      using that nc by (simp add: py_mod_def ar)
    have pw: "py_pow l r = Inr (IntV (a ^ nat b))" if "0 \<le> b"
      using that by (simp add: py_pow_def ar long_pow_def)
    have dv: "is_float v" if "py_truediv l r = Inr v" for v
    proof -
      from that have "long_true_divide a b = Inr v" by (simp add: py_truediv_def ar)
      then show ?thesis
        by (auto simp: long_true_divide_def split: if_splits pyfloat.splits)
    qed
    have npw: "is_float v" if "b < 0" and "py_pow l r = Inr v" for v
    proof -
      from that(2) have "long_pow a b = Inr v" by (simp add: py_pow_def ar)
      with that(1) obtain x y where "long_as_double a = Inr x" and y: "long_as_double b = Inr y"
        and "float_pow x y = Inr v"
        by (auto simp: long_pow_def split: sum.splits)
      then show ?thesis
        using long_as_double_whole [OF y] float_pow_whole_is_float by blast
    qed
    from add sub mul md pw dv npw show ?thesis by blast
  qed
  have floats: "(\<forall>v. py_add l' r' = Inr v \<or> py_sub l' r' = Inr v \<or> py_mul l' r' = Inr v
            \<or> py_truediv l' r' = Inr v \<or> py_mod l' r' = Inr v \<longrightarrow> is_float v)
      \<and> (\<forall>v. py_pow l' r' = Inr v \<longrightarrow> is_float v \<or> is_complex v)"
    if fl: "is_float l' \<or> is_float r'" and nl: "\<not> is_complex l'" and nr: "\<not> is_complex r'"
  proof -
    from fl have none: "as_int l' = None \<or> as_int r' = None"
      by (cases l'; cases r'; simp)
    note af = arith_floats [OF none nl nr]
    have add: "is_float v" if "py_add l' r' = Inr v" for v
      using that by (auto simp: py_add_def af split: sum.splits)
    have sub: "is_float v" if "py_sub l' r' = Inr v" for v
      using that by (auto simp: py_sub_def af split: sum.splits)
    have mul: "is_float v" if "py_mul l' r' = Inr v" for v
      using that by (auto simp: py_mul_def af split: sum.splits)
    have dv: "is_float v" if "py_truediv l' r' = Inr v" for v
      using that by (auto simp: py_truediv_def af split: sum.splits if_splits)
    have md: "is_float v" if "py_mod l' r' = Inr v" for v
      using that nl nr by (auto simp: py_mod_def af split: sum.splits if_splits)
    have pw: "is_float v \<or> is_complex v" if "py_pow l' r' = Inr v" for v
      using that by (auto simp: py_pow_def af split: sum.splits dest: float_pow_not_int)
    from add sub mul dv md pw show ?thesis by blast
  qed
  from ints floats eval_four_div_two eval_four_times_two show ?thesis
    by blast
qed

theorem result_types_witness:
  "as_int (IntV 4) = Some 4 \<and> as_int (IntV (- 2)) = Some (- 2)
   \<and> py_add (IntV 4) (IntV (- 2)) = Inr (IntV 2)
   \<and> py_sub (IntV 4) (IntV (- 2)) = Inr (IntV 6)
   \<and> py_mul (IntV 4) (IntV (- 2)) = Inr (IntV (- 8))
   \<and> py_mod (IntV 4) (IntV (- 2)) = Inr (IntV 0)
   \<and> as_int (IntV 3) = Some 3 \<and> as_int (IntV 2) = Some 2
   \<and> py_pow (IntV 3) (IntV 2) = Inr (IntV 9)
   \<and> is_float (FloatV (Fin 1)) \<and> \<not> is_complex (FloatV (Fin 1)) \<and> \<not> is_complex (IntV 0)
   \<and> py_add (FloatV (Fin 1)) (FloatV (Fin 0)) = Inr (FloatV (Fin 1))
   \<and> is_float (FloatV (Fin 1))"
proof -
  have basics: "as_int (IntV 4) = Some 4" "as_int (IntV (- 2)) = Some (- 2)"
    "as_int (IntV 3) = Some 3" "as_int (IntV 2) = Some 2"
    "is_float (FloatV (Fin 1))" "\<not> is_complex (FloatV (Fin 1))" "\<not> is_complex (IntV 0)"
    by simp_all
  from result_types [where l = "IntV 4" and a = 4 and r = "IntV (- 2)" and b = "- 2"] basics
  have first: "py_add (IntV 4) (IntV (- 2)) = Inr (IntV 2)
      \<and> py_sub (IntV 4) (IntV (- 2)) = Inr (IntV 6)
      \<and> py_mul (IntV 4) (IntV (- 2)) = Inr (IntV (- 8))
      \<and> py_mod (IntV 4) (IntV (- 2)) = Inr (IntV 0)"
    by simp
  from result_types [where l = "IntV 3" and a = 3 and r = "IntV 2" and b = 2] basics
  have second: "py_pow (IntV 3) (IntV 2) = Inr (IntV 9)"
    by simp
  have sum: "py_add (FloatV (Fin 1)) (FloatV (Fin 0)) = Inr (FloatV (Fin 1))"
    by (simp add: py_add_def arith_def round_defs)
  from first second sum basics show ?thesis by blast
qed

theorem result_types_counterexample:
  "as_int (IntV 2) = Some 2 \<and> as_int (IntV (- 1)) = Some (- 1)
   \<and> py_pow (IntV 2) (IntV (- 1)) = Inr (FloatV (Fin (1 / 2)))
   \<and> safe_eval ''2 ** -1'' = Some (Inr (FloatV (Fin (1 / 2))))"
  by (simp add: eval_neg_power py_pow_def arith_def long_pow_def long_as_double_two
      long_as_double_minus_one float_pow_half)



subsection \<open>Letters\<close>

lemma under_digit_limit: "\<bar>n\<bar> < 10 \<Longrightarrow> \<not> over_digit_limit (IntV n)"
proof -
  assume small: "\<bar>n\<bar> < 10"
  have "(10::int) ^ 1 \<le> 10 ^ 4300" by (rule power_increasing) simp_all
  then have "10 \<le> digit_limit" by (simp add: digit_limit_def del: power_numeral)
  with small show ?thesis by simp
qed

lemma lower_letter: "py_isalpha (py_lower c) \<Longrightarrow> py_isalpha c"
  by (cases "py_lower c = c") (auto simp: py_lower_def py_isalpha_def Let_def split: if_splits)

lemma quit_has_letters:
  assumes "map py_lower s \<in> {''quit'', ''exit''}"
  shows "list_ex py_isalpha s"
proof -
  from assms obtain c cs where s: "s = c # cs" and "py_lower c = CHR ''q'' \<or> py_lower c = CHR ''e''"
    by (cases s) auto
  then have "py_isalpha (py_lower c)" by (auto simp: py_isalpha_def)
  then have "py_isalpha c" by (rule lower_letter)
  with s show ?thesis by simp
qed

text \<open>
  C2, as amended. The test for letters stands in the two prompt loops, not in
  \<^verbatim>\<open>safe_eval\<close>: a line that holds a letter and is not \<^verbatim>\<open>quit\<close> or \<^verbatim>\<open>exit\<close> is answered
  with "Only numbers and operators are allowed" whatever the \<^verbatim>\<open>try\<close> statement would
  do, so \<^verbatim>\<open>safe_eval\<close> is not called and nothing is parsed; a line without letters that
  is not blank goes to the \<^verbatim>\<open>try\<close> statement as it is, stripped. \<^verbatim>\<open>safe_eval\<close> itself
  parses a text with letters: \<^verbatim>\<open>1e3\<close> is the float 1000.0, and \<^verbatim>\<open>2 + a\<close> is refused by
  the tree walk.
\<close>

theorem letters_are_refused_by_the_loops:
  "(list_ex py_isalpha (strip raw) \<and> map py_lower (strip raw) \<notin> {''quit'', ''exit''} \<longrightarrow>
      repl_step attempt raw = Refuse ''Only numbers and operators are allowed''
      \<and> main_step attempt raw = Refuse ''Only numbers and operators are allowed'')
   \<and> (strip raw \<noteq> [] \<and> \<not> list_ex py_isalpha (strip raw) \<longrightarrow>
        repl_step attempt raw = Tried (attempt (strip raw))
        \<and> main_step attempt raw = Tried (attempt (strip raw)))
   \<and> safe_eval ''1e3'' = Some (Inr (FloatV (Fin 1000)))
   \<and> safe_eval ''2 + a'' = Some (Inl (ValueError ''Expected a numeric literal''))"
proof -
  have refused: "repl_step attempt raw = Refuse ''Only numbers and operators are allowed''
      \<and> main_step attempt raw = Refuse ''Only numbers and operators are allowed''"
    if "list_ex py_isalpha (strip raw)" and "map py_lower (strip raw) \<notin> {''quit'', ''exit''}"
  proof -
    from that(1) have "strip raw \<noteq> []" by auto
    with that show ?thesis by (simp add: repl_step_def main_step_def Let_def)
  qed
  have tried: "repl_step attempt raw = Tried (attempt (strip raw))
        \<and> main_step attempt raw = Tried (attempt (strip raw))"
    if "strip raw \<noteq> []" and "\<not> list_ex py_isalpha (strip raw)"
  proof -
    from that(2) quit_has_letters [of "strip raw"]
    have "map py_lower (strip raw) \<notin> {''quit'', ''exit''}"
      by auto
    with that show ?thesis by (simp add: repl_step_def main_step_def Let_def)
  qed
  from refused tried eval_sci eval_two_plus_a show ?thesis by blast
qed

theorem letters_are_refused_by_the_loops_witness:
  "list_ex py_isalpha (strip ''1e3'') \<and> map py_lower (strip ''1e3'') \<notin> {''quit'', ''exit''}
   \<and> repl_step (\<lambda>s. map_option report (safe_eval s)) ''1e3''
       = Refuse ''Only numbers and operators are allowed''
   \<and> main_step (\<lambda>s. map_option report (safe_eval s)) ''1e3''
       = Refuse ''Only numbers and operators are allowed''
   \<and> strip '' 4 * 2 '' = ''4 * 2'' \<and> \<not> list_ex py_isalpha (strip '' 4 * 2 '')
   \<and> repl_step (\<lambda>s. map_option report (safe_eval s)) '' 4 * 2 ''
       = Tried (Some (Answer (IntV 8)))
   \<and> main_step (\<lambda>s. map_option report (safe_eval s)) '' 4 * 2 ''
       = Tried (Some (Answer (IntV 8)))"
proof -
  have one: "strip ''1e3'' = ''1e3''" and two: "strip '' 4 * 2 '' = ''4 * 2''"
    by (simp_all add: strip_def py_isspace_def)
  have letters: "list_ex py_isalpha (strip ''1e3'')" "\<not> list_ex py_isalpha (strip '' 4 * 2 '')"
    unfolding one two by (simp_all add: py_isalpha_def)
  have lower: "map py_lower (strip ''1e3'') \<notin> {''quit'', ''exit''}"
    unfolding one by (simp add: py_lower_def)
  have small: "\<not> over_digit_limit (IntV 8)"
    by (rule under_digit_limit) simp
  from letters_are_refused_by_the_loops
    [where raw = "''1e3''" and attempt = "\<lambda>s. map_option report (safe_eval s)"] letters lower
  have first: "repl_step (\<lambda>s. map_option report (safe_eval s)) ''1e3''
       = Refuse ''Only numbers and operators are allowed''
   \<and> main_step (\<lambda>s. map_option report (safe_eval s)) ''1e3''
       = Refuse ''Only numbers and operators are allowed''"
    by blast
  from letters_are_refused_by_the_loops
    [where raw = "'' 4 * 2 ''" and attempt = "\<lambda>s. map_option report (safe_eval s)"] letters two
  have "repl_step (\<lambda>s. map_option report (safe_eval s)) '' 4 * 2 ''
       = Tried (map_option report (safe_eval ''4 * 2''))
   \<and> main_step (\<lambda>s. map_option report (safe_eval s)) '' 4 * 2 ''
       = Tried (map_option report (safe_eval ''4 * 2''))"
    by simp
  with small have second: "repl_step (\<lambda>s. map_option report (safe_eval s)) '' 4 * 2 ''
       = Tried (Some (Answer (IntV 8)))
   \<and> main_step (\<lambda>s. map_option report (safe_eval s)) '' 4 * 2 ''
       = Tried (Some (Answer (IntV 8)))"
    by (simp add: eval_four_times_two)
  from first second letters lower two show ?thesis by blast
qed

theorem letters_counterexample:
  "list_ex py_isalpha ''1e3''
   \<and> safe_eval ''1e3'' = Some (Inr (FloatV (Fin 1000)))
   \<and> command_line [''1e3''] = Some (Answer (FloatV (Fin 1000)))"
  by (simp add: py_isalpha_def eval_sci command_line_def)

end
